theory Spec2Isabelle
  imports Main "HOL-Library.Sublist" "HOL-Library.AList"
begin

section \<open>The command loop of \<^verbatim>\<open>kernel.py\<close>\<close>

text \<open>
  The kernel reads one line at a time from standard input, decodes it as JSON, dispatches
  on the \<^verbatim>\<open>type\<close> field, and prints a sentinel line. The model below follows
  \<^verbatim>\<open>src/eda/src/main/kernel.py\<close> statement by statement. Everything the file
  imports (the JSON decoder, the four pandas readers, the three pandas renderers, the
  builtin \<^verbatim>\<open>exec\<close>, the builtin \<^verbatim>\<open>str\<close> of non-string values and the encoder of
  standard output) is a field of the record \<open>externals\<close>, so that every theorem holds for
  any behaviour of these collaborators that fits the field's type.
\<close>

subsection \<open>Python values\<close>

text \<open>
  What \<^verbatim>\<open>json.loads\<close> can return: \<^verbatim>\<open>None\<close>, a bool, an int, a str, a list or a
  dict with string keys. Floating-point numbers are left out of the embedding. A str is
  a list of bytes; a character that no encoding can write (a lone surrogate) is a
  sequence of bytes above 127 like any other non-ASCII character.
\<close>

datatype pyval =
    PNone
  | PBool bool
  | PInt int
  | PStr string
  | PList "pyval list"
  | PDict "(string \<times> pyval) list"

fun type_name :: "pyval \<Rightarrow> string" where
  "type_name PNone = ''NoneType''"
| "type_name (PBool b) = ''bool''"
| "type_name (PInt i) = ''int''"
| "type_name (PStr s) = ''str''"
| "type_name (PList xs) = ''list''"
| "type_name (PDict kvs) = ''dict''"

text \<open>
  Exceptions. \<open>BaseOnly\<close> stands for the classes that derive from \<^verbatim>\<open>BaseException\<close> but
  not from \<^verbatim>\<open>Exception\<close> (\<^verbatim>\<open>SystemExit\<close>, \<^verbatim>\<open>KeyboardInterrupt\<close>,
  \<^verbatim>\<open>GeneratorExit\<close>); \<open>JSONDecodeError\<close> is \<^verbatim>\<open>json.JSONDecodeError\<close>, a subclass of
  \<^verbatim>\<open>ValueError\<close>; \<open>OtherException\<close> is any other subclass of \<^verbatim>\<open>Exception\<close>
  (\<^verbatim>\<open>RecursionError\<close>, the errors of pandas, a class of the executed code); the string
  is \<^verbatim>\<open>str(e)\<close>. \<open>BadStr e'\<close> is an instance of a subclass of \<^verbatim>\<open>Exception\<close> whose
  \<^verbatim>\<open>__str__\<close> raises \<open>e'\<close>.
\<close>

datatype pyexn =
    AttributeError string
  | TypeError string
  | ValueError string
  | UnicodeEncodeError string
  | JSONDecodeError string
  | OtherException string
  | BaseOnly string
  | BadStr pyexn

fun is_Exception :: "pyexn \<Rightarrow> bool" where
  "is_Exception (BaseOnly m) = False"
| "is_Exception e = True"

text \<open>\<^verbatim>\<open>str(e)\<close>, as the f-strings of the diagnostics call it: it returns or raises.\<close>

fun exn_str :: "pyexn \<Rightarrow> pyexn + string" where
  "exn_str (AttributeError m) = Inr m"
| "exn_str (TypeError m) = Inr m"
| "exn_str (ValueError m) = Inr m"
| "exn_str (UnicodeEncodeError m) = Inr m"
| "exn_str (JSONDecodeError m) = Inr m"
| "exn_str (OtherException m) = Inr m"
| "exn_str (BaseOnly m) = Inr m"
| "exn_str (BadStr e) = Inl e"

text \<open>What \<^verbatim>\<open>except json.JSONDecodeError as e\<close> catches, with the text of \<^verbatim>\<open>e\<close>.\<close>

fun json_decode_error :: "pyexn \<Rightarrow> string option" where
  "json_decode_error (JSONDecodeError m) = Some m"
| "json_decode_error e = None"

abbreviation (input) quote :: string where
  "quote \<equiv> [CHR 0x27]"

abbreviation (input) newline :: char where
  "newline \<equiv> CHR 0x0A"

text \<open>\<^verbatim>\<open>command_data.get(name)\<close>: only a dict has the method.\<close>

definition py_get :: "pyval \<Rightarrow> string \<Rightarrow> pyexn + pyval" where
  "py_get d name =
     (case d of
        PDict kvs \<Rightarrow> (case map_of kvs name of None \<Rightarrow> Inr PNone | Some v \<Rightarrow> Inr v)
      | _ \<Rightarrow> Inl (AttributeError
                 (quote @ type_name d @ quote @ '' object has no attribute '' @ quote @ ''get'' @ quote)))"

text \<open>
  \<^verbatim>\<open>tag in command_type\<close>: substring containment on a str, element membership on a list,
  key membership on a dict, \<^verbatim>\<open>TypeError\<close> on anything else.
\<close>

definition py_in :: "string \<Rightarrow> pyval \<Rightarrow> pyexn + bool" where
  "py_in tag v =
     (case v of
        PStr s \<Rightarrow> Inr (sublist tag s)
      | PList xs \<Rightarrow> Inr (PStr tag \<in> set xs)
      | PDict kvs \<Rightarrow> Inr (tag \<in> fst ` set kvs)
      | _ \<Rightarrow> Inl (TypeError (''argument of type '' @ quote @ type_name v @ quote @ '' is not iterable'')))"

subsection \<open>The dataset table, the heap, the input and the output\<close>

text \<open>
  Keys of the module-level dict \<^verbatim>\<open>dataframes\<close>. Python compares keys with \<^verbatim>\<open>==\<close>, so
  \<^verbatim>\<open>True\<close> and \<^verbatim>\<open>1\<close> are one key; lists and dicts are unhashable.
\<close>

datatype key = KNone | KNum int | KStr string

fun py_hash_key :: "pyval \<Rightarrow> key option" where
  "py_hash_key PNone = Some KNone"
| "py_hash_key (PBool b) = Some (KNum (if b then 1 else 0))"
| "py_hash_key (PInt i) = Some (KNum i)"
| "py_hash_key (PStr s) = Some (KStr s)"
| "py_hash_key (PList xs) = None"
| "py_hash_key (PDict kvs) = None"

text \<open>
  A DataFrame is an object: the table holds a reference, the heap holds the contents
  (of an arbitrary type \<open>'t\<close>), and executed code may change the contents in place.
  The dict is an association list in insertion order. \<open>stdin\<close> holds the lines of
  standard input that nobody has read yet: the loop takes the first, and executed code
  may read any number of them.
\<close>

record 't state =
  dataframes :: "(key \<times> nat) list"
  heap :: "nat \<Rightarrow> 't"
  next_ref :: nat
  stdin :: "string list"

datatype chan = Stdout | Stderr

text \<open>
  \<open>Print c s f\<close> is one call \<^verbatim>\<open>print(s, file=c, flush=f)\<close> of the kernel, which writes
  the text \<open>s\<close> and a newline; \<open>UserWrite c s\<close> is the text \<open>s\<close> written by executed code.
\<close>

datatype event = Print chan string bool | UserWrite chan string

text \<open>The text a channel holds after the events, and its lines.\<close>

fun written :: "chan \<Rightarrow> event \<Rightarrow> string" where
  "written c (Print c' s f) = (if c' = c then s @ [newline] else [])"
| "written c (UserWrite c' s) = (if c' = c then s else [])"

definition chan_text :: "chan \<Rightarrow> event list \<Rightarrow> string" where
  "chan_text c evs = concat (map (written c) evs)"

fun lines_acc :: "string \<Rightarrow> string \<Rightarrow> string list" where
  "lines_acc acc [] = (if acc = [] then [] else [rev acc])"
| "lines_acc acc (c # cs) =
     (if c = newline then rev acc # lines_acc [] cs else lines_acc (c # acc) cs)"

definition lines_of :: "string \<Rightarrow> string list" where
  "lines_of s = lines_acc [] s"

text \<open>How a call ends: it returns, raises, or never comes back.\<close>

datatype outcome = Returned | Raised pyexn | Diverged

subsection \<open>External collaborators\<close>

text \<open>What \<^verbatim>\<open>json.loads\<close> does with a line.\<close>

datatype decoded =
    Decoded pyval
  | DecoderRaised pyexn

text \<open>What a name is bound to in the globals of executed code.\<close>

datatype binding = Module_pd | DataFrame nat | Other pyval

record 't exec_result =
  exec_writes :: "(chan \<times> string) list"
  exec_heap :: "nat \<Rightarrow> 't"
  exec_globals_after :: "(key \<times> binding) list"
  exec_consumed :: nat
  exec_outcome :: outcome

text \<open>
  \<^item> \<open>json_loads\<close>: on text that is not JSON the decoder raises \<open>JSONDecodeError m\<close>;
    it can raise exceptions of other classes too (\<^verbatim>\<open>RecursionError\<close> on deep nesting,
    the plain \<^verbatim>\<open>ValueError\<close> of an integer with too many digits);
  \<^item> the readers: \<open>Inl m\<close> is an exception of a subclass of \<^verbatim>\<open>Exception\<close> with text \<open>m\<close>
    (missing file, malformed contents), \<open>Inr t\<close> the contents of the new DataFrame;
  \<^item> \<open>df_info\<close> is the text \<^verbatim>\<open>df.info(buf=buffer)\<close> writes, \<open>df_describe\<close> is
    \<^verbatim>\<open>df.describe(include='all').to_string()\<close>, \<open>df_head\<close> is \<^verbatim>\<open>df.head().to_string()\<close>;
    each of them can raise (\<^verbatim>\<open>describe\<close> does on a frame without columns);
  \<^item> \<open>py_repr\<close> is \<^verbatim>\<open>str(v)\<close> for a value that is not a str;
  \<^item> \<open>stdout_raises\<close>: standard output encodes strictly, and \<open>Some m\<close> is the
    \<^verbatim>\<open>UnicodeEncodeError\<close> it raises on a text it cannot encode; standard error replaces
    what it cannot encode and does not raise;
  \<^item> \<open>exec_code\<close> is \<^verbatim>\<open>exec(code, globals)\<close> on a str: it gets the globals dict, the
    heap and the unread lines of standard input, and gives back what it wrote, the heap
    and the globals it left, how many of the unread lines it read, and how it ended.
    Code that reaches the module-level dict of the kernel through the interpreter
    (\<^verbatim>\<open>import __main__\<close>) is outside the embedding.
\<close>

record 't externals =
  json_loads :: "string \<Rightarrow> decoded"
  read_csv :: "string \<Rightarrow> string + 't"
  read_excel :: "string \<Rightarrow> string + 't"
  read_json :: "string \<Rightarrow> string + 't"
  read_parquet :: "string \<Rightarrow> string + 't"
  df_info :: "'t \<Rightarrow> pyexn + string"
  df_describe :: "'t \<Rightarrow> pyexn + string"
  df_head :: "'t \<Rightarrow> pyexn + string"
  py_repr :: "pyval \<Rightarrow> string"
  stdout_raises :: "string \<Rightarrow> string option"
  exec_code ::
    "string \<Rightarrow> (key \<times> binding) list \<Rightarrow> (nat \<Rightarrow> 't) \<Rightarrow> string list \<Rightarrow> 't exec_result"

text \<open>A value inside an f-string: a str is itself, anything else goes through \<^verbatim>\<open>str\<close>.\<close>

definition fmt :: "'t externals \<Rightarrow> pyval \<Rightarrow> string" where
  "fmt ext v = (case v of PStr s \<Rightarrow> s | _ \<Rightarrow> py_repr ext v)"

text \<open>
  What \<^verbatim>\<open>print(s)\<close> on standard output raises, if anything. ASCII text can always be
  encoded. (A closed pipe is a failure of the stream, not of a line, and is not modelled.)
\<close>

definition is_ascii :: "char \<Rightarrow> bool" where
  "is_ascii c = (\<not> digit7 c)"

definition stdout_error :: "'t externals \<Rightarrow> string \<Rightarrow> pyexn option" where
  "stdout_error ext s =
     (if list_all is_ascii s then None else map_option UnicodeEncodeError (stdout_raises ext s))"

subsection \<open>\<^verbatim>\<open>execute_code\<close>\<close>

text \<open>\<^verbatim>\<open>{'pd': pd, **dataframes}\<close>: a new dict, \<^verbatim>\<open>pd\<close> first, then every table entry.\<close>

definition exec_globals :: "(key \<times> nat) list \<Rightarrow> (key \<times> binding) list" where
  "exec_globals dfs =
     foldl (\<lambda>d (k, r). AList.update k (DataFrame r) d) [(KStr ''pd'', Module_pd)] dfs"

text \<open>The builtin \<^verbatim>\<open>exec\<close> rejects a first argument that is not a str.\<close>

definition py_exec ::
  "'t externals \<Rightarrow> pyval \<Rightarrow> (key \<times> binding) list \<Rightarrow> (nat \<Rightarrow> 't) \<Rightarrow> string list
     \<Rightarrow> 't exec_result" where
  "py_exec ext code g h inp =
     (case code of
        PStr s \<Rightarrow> exec_code ext s g h inp
      | _ \<Rightarrow> \<lparr>exec_writes = [], exec_heap = h, exec_globals_after = g, exec_consumed = 0,
              exec_outcome = Raised (TypeError ''exec() arg 1 must be a string, bytes or code object'')\<rparr>)"

definition error_line :: "string \<Rightarrow> event" where
  "error_line m = Print Stderr (''PYTHON_ERROR: '' @ m) False"

text \<open>
  The \<^verbatim>\<open>except Exception as e\<close> clause prints \<^verbatim>\<open>f"PYTHON_ERROR: {e}"\<close>; when \<^verbatim>\<open>str(e)\<close>
  raises, that exception leaves the function.
\<close>

definition execute_code ::
  "'t externals \<Rightarrow> pyval \<Rightarrow> 't state \<Rightarrow> event list \<times> 't state \<times> outcome" where
  "execute_code ext code_to_exec st =
     (let r = py_exec ext code_to_exec (exec_globals (dataframes st)) (heap st) (stdin st);
          ws = map (\<lambda>(c, s). UserWrite c s) (exec_writes r);
          st' = st\<lparr>heap := exec_heap r, stdin := drop (exec_consumed r) (stdin st)\<rparr>
      in case exec_outcome r of
           Returned \<Rightarrow> (ws, st', Returned)
         | Raised e \<Rightarrow>
             if is_Exception e then
               (case exn_str e of
                  Inr m \<Rightarrow> (ws @ [error_line m], st', Returned)
                | Inl e' \<Rightarrow> (ws, st', Raised e'))
             else (ws, st', Raised e)
         | Diverged \<Rightarrow> (ws, st', Diverged))"

subsection \<open>The Load branch\<close>

text \<open>The if/elif chain on the end of the path, with the call it selects.\<close>

definition load_table :: "'t externals \<Rightarrow> pyval \<Rightarrow> pyexn + 't" where
  "load_table ext path =
     (case path of
        PStr p \<Rightarrow>
          if suffix ''.csv'' p then map_sum OtherException id (read_csv ext p)
          else if suffix ''.xlsx'' p then map_sum OtherException id (read_excel ext p)
          else if suffix ''.json'' p then map_sum OtherException id (read_json ext p)
          else if suffix ''.parquet'' p then map_sum OtherException id (read_parquet ext p)
          else Inl (ValueError (''Unsupported file type for: '' @ p))
      | _ \<Rightarrow> Inl (AttributeError
                 (quote @ type_name path @ quote @ '' object has no attribute '' @ quote @ ''endswith'' @ quote)))"

text \<open>\<^verbatim>\<open>dataframes[var_name] = df\<close>: a new object on the heap, bound in the dict.\<close>

definition store_df :: "pyval \<Rightarrow> 't \<Rightarrow> 't state \<Rightarrow> pyexn + 't state" where
  "store_df var_name df st =
     (case py_hash_key var_name of
        None \<Rightarrow> Inl (TypeError (''unhashable type: '' @ quote @ type_name var_name @ quote))
      | Some k \<Rightarrow>
          Inr (st\<lparr>dataframes := AList.update k (next_ref st) (dataframes st),
                  heap := (heap st)(next_ref st := df),
                  next_ref := Suc (next_ref st)\<rparr>))"

definition success_text :: "'t externals \<Rightarrow> pyval \<Rightarrow> pyval \<Rightarrow> string" where
  "success_text ext path var_name =
     ''Successfully loaded '' @ quote @ fmt ext path @ quote @ '' into DataFrame ''
       @ quote @ fmt ext var_name @ quote @ ''.''"

text \<open>
  The clause \<^verbatim>\<open>except Exception as e\<close> of the inner \<^verbatim>\<open>try\<close>, entered with the state the
  \<^verbatim>\<open>try\<close> block left. The diagnostic goes to standard error; \<^verbatim>\<open>str(e)\<close> may raise.
\<close>

definition load_except ::
  "'t externals \<Rightarrow> pyval \<Rightarrow> pyexn \<Rightarrow> 't state \<Rightarrow> event list \<times> 't state \<times> outcome" where
  "load_except ext path e st =
     (if is_Exception e then
        (case exn_str e of
           Inr m \<Rightarrow>
             ([error_line (''Failed to load data from '' @ fmt ext path @ ''. Error: '' @ m)],
              st, Returned)
         | Inl e' \<Rightarrow> ([], st, Raised e'))
      else ([], st, Raised e))"

text \<open>
  The \<^verbatim>\<open>try\<close> block has three steps: the reader, the assignment to the table, and the
  print of the confirmation. An exception of any of them enters the \<^verbatim>\<open>except\<close> clause;
  when the print raises, the table already holds the new entry.
\<close>

definition load_handler ::
  "'t externals \<Rightarrow> pyval \<Rightarrow> 't state \<Rightarrow> event list \<times> 't state \<times> outcome" where
  "load_handler ext command_data st =
     (case py_get command_data ''path'' of
        Inl e \<Rightarrow> ([], st, Raised e)
      | Inr path \<Rightarrow>
     (case py_get command_data ''varName'' of
        Inl e \<Rightarrow> ([], st, Raised e)
      | Inr var_name \<Rightarrow>
     (case load_table ext path of
        Inl e \<Rightarrow> load_except ext path e st
      | Inr df \<Rightarrow>
     (case store_df var_name df st of
        Inl e \<Rightarrow> load_except ext path e st
      | Inr st' \<Rightarrow>
     (case stdout_error ext (success_text ext path var_name) of
        Some e \<Rightarrow> load_except ext path e st'
      | None \<Rightarrow> ([Print Stdout (success_text ext path var_name) False], st', Returned))))))"

subsection \<open>The GetInfo branch\<close>

text \<open>\<^verbatim>\<open>dataframes.get(var_name)\<close> hashes its argument first.\<close>

definition table_get :: "(key \<times> nat) list \<Rightarrow> pyval \<Rightarrow> pyexn + nat option" where
  "table_get dfs var_name =
     (case py_hash_key var_name of
        None \<Rightarrow> Inl (TypeError (''unhashable type: '' @ quote @ type_name var_name @ quote))
      | Some k \<Rightarrow> Inr (map_of dfs k))"

definition report_text :: "'t externals \<Rightarrow> pyval \<Rightarrow> string \<Rightarrow> string \<Rightarrow> string \<Rightarrow> string" where
  "report_text ext var_name info_str description_str head_str =
     ''--- METADATA FOR '' @ fmt ext var_name @ '' ---\<newline>\<newline>**Info:**\<newline>'' @ info_str
     @ ''\<newline>**Descriptive Statistics:**\<newline>'' @ description_str
     @ ''\<newline>\<newline>**First 5 Rows:**\<newline>'' @ head_str"

definition not_found_line :: "'t externals \<Rightarrow> pyval \<Rightarrow> event" where
  "not_found_line ext var_name =
     error_line (''DataFrame '' @ quote @ fmt ext var_name @ quote @ '' not found.'')"

text \<open>
  No statement of this branch is inside a \<^verbatim>\<open>try\<close> of its own: what the three renderers
  or the print raise goes to the outer \<^verbatim>\<open>try\<close>.
\<close>

definition getinfo_handler ::
  "'t externals \<Rightarrow> pyval \<Rightarrow> 't state \<Rightarrow> event list \<times> 't state \<times> outcome" where
  "getinfo_handler ext command_data st =
     (case py_get command_data ''varName'' of
        Inl e \<Rightarrow> ([], st, Raised e)
      | Inr var_name \<Rightarrow>
     (case table_get (dataframes st) var_name of
        Inl e \<Rightarrow> ([], st, Raised e)
      | Inr None \<Rightarrow> ([not_found_line ext var_name], st, Returned)
      | Inr (Some r) \<Rightarrow>
     (case df_info ext (heap st r) of
        Inl e \<Rightarrow> ([], st, Raised e)
      | Inr info_str \<Rightarrow>
     (case df_describe ext (heap st r) of
        Inl e \<Rightarrow> ([], st, Raised e)
      | Inr description_str \<Rightarrow>
     (case df_head ext (heap st r) of
        Inl e \<Rightarrow> ([], st, Raised e)
      | Inr head_str \<Rightarrow>
     (case stdout_error ext (report_text ext var_name info_str description_str head_str) of
        Some e \<Rightarrow> ([], st, Raised e)
      | None \<Rightarrow>
          ([Print Stdout (report_text ext var_name info_str description_str head_str) False],
           st, Returned)))))))"

subsection \<open>The loop\<close>

definition execute_handler ::
  "'t externals \<Rightarrow> pyval \<Rightarrow> 't state \<Rightarrow> event list \<times> 't state \<times> outcome" where
  "execute_handler ext command_data st =
     (case py_get command_data ''code'' of
        Inl e \<Rightarrow> ([], st, Raised e)
      | Inr code \<Rightarrow> execute_code ext code st)"

text \<open>The body of the \<^verbatim>\<open>try\<close> after \<^verbatim>\<open>json.loads\<close> has returned: the if/elif chain.\<close>

definition dispatch ::
  "'t externals \<Rightarrow> pyval \<Rightarrow> 't state \<Rightarrow> event list \<times> 't state \<times> outcome" where
  "dispatch ext command_data st =
     (case py_get command_data ''type'' of
        Inl e \<Rightarrow> ([], st, Raised e)
      | Inr command_type \<Rightarrow>
     (case py_in ''LoadCommand'' command_type of
        Inl e \<Rightarrow> ([], st, Raised e)
      | Inr True \<Rightarrow> load_handler ext command_data st
      | Inr False \<Rightarrow>
     (case py_in ''ExecuteCommand'' command_type of
        Inl e \<Rightarrow> ([], st, Raised e)
      | Inr True \<Rightarrow> execute_handler ext command_data st
      | Inr False \<Rightarrow>
     (case py_in ''GetInfoCommand'' command_type of
        Inl e \<Rightarrow> ([], st, Raised e)
      | Inr True \<Rightarrow> getinfo_handler ext command_data st
      | Inr False \<Rightarrow> ([], st, Returned)))))"

text \<open>The sentinel is ASCII text, which standard output can always encode.\<close>

definition sentinel :: event where
  "sentinel = Print Stdout ''<END_OF_OUTPUT>'' True"

text \<open>The statements of the outer \<^verbatim>\<open>try\<close>: \<^verbatim>\<open>json.loads\<close>, then the if/elif chain.\<close>

definition try_body ::
  "'t externals \<Rightarrow> string \<Rightarrow> 't state \<Rightarrow> event list \<times> 't state \<times> outcome" where
  "try_body ext line st =
     (case json_loads ext line of
        DecoderRaised e \<Rightarrow> ([], st, Raised e)
      | Decoded command_data \<Rightarrow> dispatch ext command_data st)"

text \<open>
  One iteration of \<^verbatim>\<open>for line in sys.stdin\<close>, in a state whose \<open>stdin\<close> holds the lines
  after \<open>line\<close>. The only handler of the outer \<^verbatim>\<open>try\<close> is \<^verbatim>\<open>except json.JSONDecodeError\<close>,
  which prints to standard error; it catches that class wherever in the \<^verbatim>\<open>try\<close> it was
  raised. The sentinel is printed after the \<^verbatim>\<open>try\<close> statement, so only when the
  statement completed. (Standard input delivers decoded lines; bytes it cannot decode
  are a failure of the stream and are not modelled.)
\<close>

definition handle_line ::
  "'t externals \<Rightarrow> string \<Rightarrow> 't state \<Rightarrow> event list \<times> 't state \<times> outcome" where
  "handle_line ext line st =
     (case try_body ext line st of
        (evs, st', Returned) \<Rightarrow> (evs @ [sentinel], st', Returned)
      | (evs, st', Raised e) \<Rightarrow>
          (case json_decode_error e of
             Some m \<Rightarrow>
               (evs @ [error_line (''Invalid JSON received. '' @ m), sentinel], st', Returned)
           | None \<Rightarrow> (evs, st', Raised e))
      | (evs, st', Diverged) \<Rightarrow> (evs, st', Diverged))"

text \<open>
  The loop over standard input. \<open>Returned\<close>: end of input, normal exit; \<open>Raised e\<close>: the
  process died of the uncaught \<open>e\<close>; \<open>Diverged\<close>: it hangs. Every iteration takes one
  line off \<open>stdin\<close> and no handler adds one, so the loop ends.
\<close>

function main_loop :: "'t externals \<Rightarrow> 't state \<Rightarrow> event list \<times> 't state \<times> outcome" where
  "main_loop ext st =
     (case stdin st of
        [] \<Rightarrow> ([], st, Returned)
      | line # rest \<Rightarrow>
          (case handle_line ext line (st\<lparr>stdin := rest\<rparr>) of
             (evs, st', Returned) \<Rightarrow>
               (case main_loop ext st' of (evs', st'', oc) \<Rightarrow> (evs @ evs', st'', oc))
           | (evs, st', oc) \<Rightarrow> (evs, st', oc)))"
  by pat_completeness auto
termination
proof (relation "measure (\<lambda>(ext, st). length (stdin st))")
  show "wf (measure (\<lambda>(ext :: 't externals, st :: 't state). length (stdin st)))"
    by simp
next
  fix ext :: "'t externals" and st :: "'t state" and line rest evs y st' oc
  assume s: "stdin st = line # rest"
    and h: "(evs, y) = handle_line ext line (st\<lparr>stdin := rest\<rparr>)" "(st', oc) = y"
      "oc = Returned"
  have ex: "length (stdin (fst (snd (execute_code ext c s)))) \<le> length (stdin s)" for c s
    by (simp add: execute_code_def Let_def split: outcome.splits sum.splits)
  have lo: "stdin (fst (snd (load_handler ext c s))) = stdin s" for c s
    by (auto simp: load_handler_def load_except_def store_df_def split: sum.splits option.splits)
  have gi: "stdin (fst (snd (getinfo_handler ext c s))) = stdin s" for c s
    by (simp add: getinfo_handler_def split: sum.splits option.splits)
  have di: "length (stdin (fst (snd (dispatch ext c s)))) \<le> length (stdin s)" for c s
    by (simp add: dispatch_def execute_handler_def ex lo gi split: sum.splits bool.splits)
  have tb: "length (stdin (fst (snd (try_body ext line (st\<lparr>stdin := rest\<rparr>))))) \<le> length rest"
    using di [of _ "st\<lparr>stdin := rest\<rparr>"] by (simp add: try_body_def split: decoded.splits)
  have "fst (snd (handle_line ext line (st\<lparr>stdin := rest\<rparr>)))
          = fst (snd (try_body ext line (st\<lparr>stdin := rest\<rparr>)))"
    by (simp add: handle_line_def split: prod.splits outcome.splits option.splits)
  with tb
  have "length (stdin (fst (snd (handle_line ext line (st\<lparr>stdin := rest\<rparr>))))) \<le> length rest"
    by simp
  with h have "length (stdin st') \<le> length rest"
    by (metis fst_conv snd_conv)
  with s show "((ext, st'), (ext, st)) \<in> measure (\<lambda>(ext, st). length (stdin st))"
    by simp
qed

declare main_loop.simps [simp del]

text \<open>
  \<^verbatim>\<open>dataframes = {}\<close> at import; \<open>h0\<close> is the memory no DataFrame lives in yet, \<open>lines\<close>
  is what standard input will deliver.
\<close>

definition init_state :: "(nat \<Rightarrow> 't) \<Rightarrow> string list \<Rightarrow> 't state" where
  "init_state h0 lines = \<lparr>dataframes = [], heap = h0, next_ref = 0, stdin = lines\<rparr>"

definition main ::
  "'t externals \<Rightarrow> (nat \<Rightarrow> 't) \<Rightarrow> string list \<Rightarrow> event list \<times> 't state \<times> outcome" where
  "main ext h0 lines = main_loop ext (init_state h0 lines)"


subsection \<open>A concrete instance of the collaborators\<close>

text \<open>
  To run the model on examples, the collaborators are fixed as follows. The decoder
  raises \<^verbatim>\<open>RecursionError\<close> on a line of more than 1000 opening brackets, knows the
  lines of \<open>demo_lines\<close> and raises \<^verbatim>\<open>JSONDecodeError\<close> on every other line. The contents of a DataFrame
  are a string: \<^verbatim>\<open>data.csv\<close> holds \<^verbatim>\<open>a,b\<close>, \<^verbatim>\<open>empty.json\<close> holds a frame without
  columns, which \<^verbatim>\<open>describe\<close> rejects, and no other file exists. Standard output
  cannot encode the lone surrogate \<^verbatim>\<open>\ud800\<close>, the bytes ED A0 80 of a str. Executed code
  is one of the programs of \<open>demo_exec\<close>.
\<close>

definition surrogate :: string where
  "surrogate = [CHR 0xED, CHR 0xA0, CHR 0x80]"


text \<open>The JSON text of a line whose name is the escape \<^verbatim>\<open>\ud800\<close>.\<close>

definition load_surrogate_line :: string where
  \<open>load_surrogate_line =
     ''{"type":"LoadCommand","path":"data.csv","varName":"'' @ [CHR 0x5C] @ ''ud800"}''\<close>

definition getinfo_surrogate_line :: string where
  \<open>getinfo_surrogate_line =
     ''{"type":"GetInfoCommand","varName":"'' @ [CHR 0x5C] @ ''ud800"}''\<close>

text \<open>The JSON text of a line whose name is \<^verbatim>\<open>a\nb\<close>, with the escape for the newline.\<close>

definition load_two_lines_line :: string where
  \<open>load_two_lines_line =
     ''{"type":"LoadCommand","path":"data.csv","varName":"a'' @ [CHR 0x5C] @ ''nb"}''\<close>

definition demo_lines :: "(string \<times> pyval) list" where
  \<open>demo_lines =
    [(''{"type":"LoadCommand","path":"data.csv","varName":"df"}'',
        PDict [(''type'', PStr ''LoadCommand''), (''path'', PStr ''data.csv''),
               (''varName'', PStr ''df'')]),
     (''{"type":"LoadCommand","path":"data.csv","varName":"pd"}'',
        PDict [(''type'', PStr ''LoadCommand''), (''path'', PStr ''data.csv''),
               (''varName'', PStr ''pd'')]),
     (''{"type":"LoadCommand","path":"empty.json","varName":"e"}'',
        PDict [(''type'', PStr ''LoadCommand''), (''path'', PStr ''empty.json''),
               (''varName'', PStr ''e'')]),
     (''{"type":"LoadCommand","path":"notes.txt","varName":"df"}'',
        PDict [(''type'', PStr ''LoadCommand''), (''path'', PStr ''notes.txt''),
               (''varName'', PStr ''df'')]),
     (load_surrogate_line,
        PDict [(''type'', PStr ''LoadCommand''), (''path'', PStr ''data.csv''),
               (''varName'', PStr surrogate)]),
     (load_two_lines_line,
        PDict [(''type'', PStr ''LoadCommand''), (''path'', PStr ''data.csv''),
               (''varName'', PStr ''a\<newline>b'')]),
     (''{"type":"GetInfoCommand","varName":"df"}'',
        PDict [(''type'', PStr ''GetInfoCommand''), (''varName'', PStr ''df'')]),
     (''{"type":"GetInfoCommand","varName":"e"}'',
        PDict [(''type'', PStr ''GetInfoCommand''), (''varName'', PStr ''e'')]),
     (''{"type":"GetInfoCommand","varName":[]}'',
        PDict [(''type'', PStr ''GetInfoCommand''), (''varName'', PList [])]),
     (getinfo_surrogate_line,
        PDict [(''type'', PStr ''GetInfoCommand''), (''varName'', PStr surrogate)]),
     (''{"type":"ExecuteCommand","code":"df = 1"}'',
        PDict [(''type'', PStr ''ExecuteCommand''), (''code'', PStr ''df = 1'')]),
     (''{"type":"ExecuteCommand","code":"raise ValueError(1)"}'',
        PDict [(''type'', PStr ''ExecuteCommand''), (''code'', PStr ''raise ValueError(1)'')]),
     (''{"type":"ExecuteCommand","code":"raise ValueError('a'+chr(10)+'b')"}'',
        PDict [(''type'', PStr ''ExecuteCommand''),
               (''code'', PStr ''raise ValueError('a'+chr(10)+'b')'')]),
     (''{"type":"ExecuteCommand","code":"E=type('E',(Exception,),{'__str__':lambda s:1/0});raise E()"}'',
        PDict [(''type'', PStr ''ExecuteCommand''),
               (''code'', PStr ''E=type('E',(Exception,),{'__str__':lambda s:1/0});raise E()'')]),
     (''{"type":"ExecuteCommand","code":"raise SystemExit"}'',
        PDict [(''type'', PStr ''ExecuteCommand''), (''code'', PStr ''raise SystemExit'')]),
     (''{"type":"ExecuteCommand","code":"while True: pass"}'',
        PDict [(''type'', PStr ''ExecuteCommand''), (''code'', PStr ''while True: pass'')]),
     (''{"type":"ExecuteCommand","code":"print('<END_OF_OUTPUT>')"}'',
        PDict [(''type'', PStr ''ExecuteCommand''), (''code'', PStr ''print('<END_OF_OUTPUT>')'')]),
     (''{"type":"ExecuteCommand","code":"import sys;sys.stdin.read()"}'',
        PDict [(''type'', PStr ''ExecuteCommand''), (''code'', PStr ''import sys;sys.stdin.read()'')]),
     (''{"type":"LoadCommandExecuteCommand","code":"df = 1"}'',
        PDict [(''type'', PStr ''LoadCommandExecuteCommand''), (''code'', PStr ''df = 1'')]),
     (''{"type":"PingCommand"}'', PDict [(''type'', PStr ''PingCommand'')]),
     (''{}'', PDict [])]\<close>

definition demo_exec ::
  "string \<Rightarrow> (key \<times> binding) list \<Rightarrow> (nat \<Rightarrow> string) \<Rightarrow> string list \<Rightarrow> string exec_result" where
  "demo_exec code g h inp =
     (let quiet = \<lparr>exec_writes = [], exec_heap = h, exec_globals_after = g, exec_consumed = 0,
                   exec_outcome = Returned\<rparr>
      in if code = ''raise SystemExit'' then quiet\<lparr>exec_outcome := Raised (BaseOnly [])\<rparr>
         else if code = ''raise ValueError(1)'' then
           quiet\<lparr>exec_outcome := Raised (ValueError ''1'')\<rparr>
         else if code = ''raise ValueError('a'+chr(10)+'b')'' then
           quiet\<lparr>exec_outcome := Raised (ValueError ''a\<newline>b'')\<rparr>
         else if code = ''E=type('E',(Exception,),{'__str__':lambda s:1/0});raise E()'' then
           quiet\<lparr>exec_outcome := Raised (BadStr (OtherException ''division by zero''))\<rparr>
         else if code = ''while True: pass'' then quiet\<lparr>exec_outcome := Diverged\<rparr>
         else if code = ''df = 1'' then
           quiet\<lparr>exec_globals_after := AList.update (KStr ''df'') (Other (PInt 1)) g\<rparr>
         else if code = ''print('<END_OF_OUTPUT>')'' then
           quiet\<lparr>exec_writes := [(Stdout, ''<END_OF_OUTPUT>\<newline>'')]\<rparr>
         else if code = ''import sys;sys.stdin.read()'' then
           quiet\<lparr>exec_consumed := length inp\<rparr>
         else quiet\<lparr>exec_outcome := Raised (OtherException ''invalid syntax'')\<rparr>)"

definition demo_ext :: "string externals" where
  "demo_ext =
     \<lparr>json_loads = (\<lambda>line.
                      if 1000 < length line \<and> set line \<subseteq> {CHR ''[''} then
                        DecoderRaised (OtherException ''maximum recursion depth exceeded'')
                      else case map_of demo_lines line of
                             Some v \<Rightarrow> Decoded v
                           | None \<Rightarrow>
                               DecoderRaised
                                 (JSONDecodeError ''Expecting value: line 1 column 1 (char 0)'')),
      read_csv = (\<lambda>p. if p = ''data.csv'' then Inr ''a,b'' else Inl ''No such file''),
      read_excel = (\<lambda>p. Inl ''No such file''),
      read_json = (\<lambda>p. if p = ''empty.json'' then Inr [] else Inl ''No such file''),
      read_parquet = (\<lambda>p. Inl ''No such file''),
      df_info = (\<lambda>t. Inr (''info of '' @ t)),
      df_describe = (\<lambda>t. if t = [] then Inl (ValueError ''Cannot describe a DataFrame without columns'')
                          else Inr (''describe of '' @ t)),
      df_head = (\<lambda>t. Inr (''head of '' @ t)),
      py_repr = (\<lambda>v. if v = PNone then ''None'' else ''...''),
      stdout_raises = (\<lambda>s. if CHR 0xED \<in> set s then Some ''surrogates not allowed'' else None),
      exec_code = demo_exec\<rparr>"

definition demo_state :: "string state" where
  "demo_state = init_state (\<lambda>r. []) []"

section \<open>Properties\<close>

subsection \<open>Auxiliary facts\<close>

lemmas model_defs = init_state_def handle_line_def try_body_def dispatch_def py_get_def py_in_def
  load_handler_def load_except_def load_table_def store_df_def success_text_def fmt_def
  stdout_error_def is_ascii_def getinfo_handler_def table_get_def report_text_def
  not_found_line_def execute_handler_def execute_code_def py_exec_def exec_globals_def
  error_line_def Let_def sublist_Cons_right suffix_to_prefix

lemmas demo_defs = demo_ext_def demo_lines_def demo_exec_def load_surrogate_line_def
  getinfo_surrogate_line_def load_two_lines_line_def surrogate_def demo_state_def

lemma py_in_PStr: "py_in tag (PStr s) = Inr (sublist tag s)"
  by (simp add: py_in_def)


lemma suffix_exclusive:
  assumes "suffix a p" "suffix b p" "\<not> suffix a b" "\<not> suffix b a"
  shows False
  using assms suffix_same_cases by blast

lemma csv_not_others:
  assumes "suffix ''.csv'' p"
  shows "\<not> suffix ''.xlsx'' p" "\<not> suffix ''.json'' p" "\<not> suffix ''.parquet'' p"
proof -
  show "\<not> suffix ''.xlsx'' p"
    using assms suffix_exclusive [of "''.csv''" p "''.xlsx''"] by (auto simp: suffix_to_prefix)
  show "\<not> suffix ''.json'' p"
    using assms suffix_exclusive [of "''.csv''" p "''.json''"] by (auto simp: suffix_to_prefix)
  show "\<not> suffix ''.parquet'' p"
    using assms suffix_exclusive [of "''.csv''" p "''.parquet''"] by (auto simp: suffix_to_prefix)
qed

lemma xlsx_not_csv: "suffix ''.xlsx'' p \<Longrightarrow> \<not> suffix ''.csv'' p"
  using csv_not_others(1) by blast

lemma json_not_before:
  assumes "suffix ''.json'' p"
  shows "\<not> suffix ''.csv'' p" "\<not> suffix ''.xlsx'' p"
proof -
  show "\<not> suffix ''.csv'' p" using assms csv_not_others(2) by blast
  show "\<not> suffix ''.xlsx'' p"
    using assms suffix_exclusive [of "''.json''" p "''.xlsx''"] by (auto simp: suffix_to_prefix)
qed

lemma parquet_not_before:
  assumes "suffix ''.parquet'' p"
  shows "\<not> suffix ''.csv'' p" "\<not> suffix ''.xlsx'' p" "\<not> suffix ''.json'' p"
proof -
  show "\<not> suffix ''.csv'' p" using assms csv_not_others(3) by blast
  show "\<not> suffix ''.xlsx'' p"
    using assms suffix_exclusive [of "''.parquet''" p "''.xlsx''"] by (auto simp: suffix_to_prefix)
  show "\<not> suffix ''.json'' p"
    using assms suffix_exclusive [of "''.parquet''" p "''.json''"] by (auto simp: suffix_to_prefix)
qed

lemma main_loop_Nil: "stdin st = [] \<Longrightarrow> main_loop ext st = ([], st, Returned)"
  by (subst main_loop.simps) simp

lemma main_loop_Cons:
  assumes "stdin st = line # rest"
    and "handle_line ext line (st\<lparr>stdin := rest\<rparr>) = (evs, st', Returned)"
  shows "main_loop ext st = (case main_loop ext st' of (evs', r) \<Rightarrow> (evs @ evs', r))"
  using assms by (subst main_loop.simps) (simp split: prod.splits)

lemma main_loop_Cons_stops:
  assumes "stdin st = line # rest"
    and "handle_line ext line (st\<lparr>stdin := rest\<rparr>) = (evs, st', oc)" and "oc \<noteq> Returned"
  shows "main_loop ext st = (evs, st', oc)"
  using assms by (subst main_loop.simps) (cases oc; simp)

lemma lines_acc_single:
  assumes "newline \<notin> set s"
  shows "lines_acc acc (s @ [newline]) = [rev acc @ s]"
  using assms by (induction s arbitrary: acc) auto

lemma lines_of_single: "newline \<notin> set s \<Longrightarrow> lines_of (s @ [newline]) = [s]"
  by (simp add: lines_of_def lines_acc_single)


lemma main_loop_stops:
  assumes "handle_line ext line st = (evs, st', oc)" "oc \<noteq> Returned"
  shows "main_loop ext (st\<lparr>stdin := line # stdin st\<rparr>) = (evs, st', oc)"
  using assms by (subst main_loop.simps) (cases oc; simp)


lemma handle_line_state:
  "fst (snd (handle_line ext line st)) = fst (snd (try_body ext line st))"
  by (simp add: handle_line_def split: prod.splits outcome.splits option.splits)

subsection \<open>Dispatch\<close>

text \<open>
  C10. When the type string holds more than one of the three tags, the first test of the
  if/elif chain that succeeds decides: a type containing \<^verbatim>\<open>LoadCommand\<close> is handled by
  the Load branch whatever else it contains, and a type containing \<^verbatim>\<open>ExecuteCommand\<close>
  but not \<^verbatim>\<open>LoadCommand\<close> is handled by the Execute branch, also when it contains
  \<^verbatim>\<open>GetInfoCommand\<close>. The result of the dispatch is the result of that branch alone.
\<close>

theorem dispatch_precedence:
  assumes "py_get command_data ''type'' = Inr (PStr t)"
  shows "(sublist ''LoadCommand'' t \<longrightarrow>
            dispatch ext command_data st = load_handler ext command_data st)
       \<and> (sublist ''ExecuteCommand'' t \<and> \<not> sublist ''LoadCommand'' t \<longrightarrow>
            dispatch ext command_data st = execute_handler ext command_data st)"
  using assms by (simp add: dispatch_def py_in_PStr)

theorem dispatch_precedence_witness:
  "py_get (PDict [(''type'', PStr ''LoadCommandExecuteCommandGetInfoCommand'')]) ''type''
     = Inr (PStr ''LoadCommandExecuteCommandGetInfoCommand'')
   \<and> sublist ''LoadCommand'' ''LoadCommandExecuteCommandGetInfoCommand''
   \<and> dispatch demo_ext (PDict [(''type'', PStr ''LoadCommandExecuteCommandGetInfoCommand'')]) demo_state
       = load_handler demo_ext (PDict [(''type'', PStr ''LoadCommandExecuteCommandGetInfoCommand'')]) demo_state
   \<and> py_get (PDict [(''type'', PStr ''ExecuteCommandGetInfoCommand'')]) ''type''
     = Inr (PStr ''ExecuteCommandGetInfoCommand'')
   \<and> sublist ''ExecuteCommand'' ''ExecuteCommandGetInfoCommand''
   \<and> \<not> sublist ''LoadCommand'' ''ExecuteCommandGetInfoCommand''
   \<and> dispatch demo_ext (PDict [(''type'', PStr ''ExecuteCommandGetInfoCommand'')]) demo_state
       = execute_handler demo_ext (PDict [(''type'', PStr ''ExecuteCommandGetInfoCommand'')]) demo_state"
proof -
  have g1: "py_get (PDict [(''type'', PStr ''LoadCommandExecuteCommandGetInfoCommand'')]) ''type''
              = Inr (PStr ''LoadCommandExecuteCommandGetInfoCommand'')"
    by (simp add: py_get_def)
  have g2: "py_get (PDict [(''type'', PStr ''ExecuteCommandGetInfoCommand'')]) ''type''
              = Inr (PStr ''ExecuteCommandGetInfoCommand'')"
    by (simp add: py_get_def)
  have s1: "sublist ''LoadCommand'' ''LoadCommandExecuteCommandGetInfoCommand''"
    by (simp add: sublist_Cons_right)
  have s2: "sublist ''ExecuteCommand'' ''ExecuteCommandGetInfoCommand''"
    by (simp add: sublist_Cons_right)
  have s3: "\<not> sublist ''LoadCommand'' ''ExecuteCommandGetInfoCommand''"
    by (simp add: sublist_Cons_right)
  from dispatch_precedence [OF g1, of demo_ext demo_state]
       dispatch_precedence [OF g2, of demo_ext demo_state] g1 g2 s1 s2 s3
  show ?thesis by simp
qed

text \<open>
  C3, as stated, at the type \<^verbatim>\<open>LoadCommandExecuteCommand\<close>: the type contains
  \<^verbatim>\<open>ExecuteCommand\<close>, yet the Load branch runs (and reports that the path \<^verbatim>\<open>None\<close> cannot
  be loaded), not the Execute branch (which would run the code and print nothing).
\<close>

theorem dispatch_containment_counterexample:
  "sublist ''ExecuteCommand'' ''LoadCommandExecuteCommand''
   \<and> dispatch demo_ext
        (PDict [(''type'', PStr ''LoadCommandExecuteCommand''), (''code'', PStr ''df = 1'')]) demo_state
      \<noteq> execute_handler demo_ext
        (PDict [(''type'', PStr ''LoadCommandExecuteCommand''), (''code'', PStr ''df = 1'')]) demo_state"
  by (simp add: model_defs demo_defs)

text \<open>
  C3, amended. For a command whose \<^verbatim>\<open>type\<close> is a string, the tags are tested by substring
  containment, in the order Load, Execute, GetInfo: a type containing \<^verbatim>\<open>LoadCommand\<close>
  runs the Load branch; one containing \<^verbatim>\<open>ExecuteCommand\<close> and not \<^verbatim>\<open>LoadCommand\<close>
  runs the Execute branch; one containing \<^verbatim>\<open>GetInfoCommand\<close> and neither of the other
  two runs the GetInfo branch; any other type string runs no branch, changes no state
  and prints nothing but the sentinel.
\<close>

theorem dispatch_by_containment:
  assumes "py_get command_data ''type'' = Inr (PStr t)"
  shows "(sublist ''LoadCommand'' t \<longrightarrow>
            dispatch ext command_data st = load_handler ext command_data st)
       \<and> (\<not> sublist ''LoadCommand'' t \<and> sublist ''ExecuteCommand'' t \<longrightarrow>
            dispatch ext command_data st = execute_handler ext command_data st)
       \<and> (\<not> sublist ''LoadCommand'' t \<and> \<not> sublist ''ExecuteCommand'' t
            \<and> sublist ''GetInfoCommand'' t \<longrightarrow>
            dispatch ext command_data st = getinfo_handler ext command_data st)
       \<and> (\<not> sublist ''LoadCommand'' t \<and> \<not> sublist ''ExecuteCommand'' t
            \<and> \<not> sublist ''GetInfoCommand'' t \<longrightarrow>
            dispatch ext command_data st = ([], st, Returned)
            \<and> (json_loads ext line = Decoded command_data \<longrightarrow>
                 handle_line ext line st = ([sentinel], st, Returned)))"
  using assms by (simp add: dispatch_def py_in_PStr handle_line_def try_body_def)

theorem dispatch_by_containment_witness:
  \<open>json_loads demo_ext ''{"type":"PingCommand"}'' = Decoded (PDict [(''type'', PStr ''PingCommand'')])
   \<and> py_get (PDict [(''type'', PStr ''PingCommand'')]) ''type'' = Inr (PStr ''PingCommand'')
   \<and> \<not> sublist ''LoadCommand'' ''PingCommand''
   \<and> \<not> sublist ''ExecuteCommand'' ''PingCommand''
   \<and> \<not> sublist ''GetInfoCommand'' ''PingCommand''
   \<and> handle_line demo_ext ''{"type":"PingCommand"}'' demo_state = ([sentinel], demo_state, Returned)
   \<and> py_get (PDict [(''type'', PStr ''MyGetInfoCommandV2''), (''varName'', PStr ''df'')]) ''type''
       = Inr (PStr ''MyGetInfoCommandV2'')
   \<and> sublist ''GetInfoCommand'' ''MyGetInfoCommandV2''
   \<and> dispatch demo_ext (PDict [(''type'', PStr ''MyGetInfoCommandV2''), (''varName'', PStr ''df'')])
        demo_state
      = getinfo_handler demo_ext
         (PDict [(''type'', PStr ''MyGetInfoCommandV2''), (''varName'', PStr ''df'')]) demo_state\<close>
proof -
  have l: \<open>json_loads demo_ext ''{"type":"PingCommand"}'' = Decoded (PDict [(''type'', PStr ''PingCommand'')])\<close>
    by (simp add: demo_defs)
  have g1: "py_get (PDict [(''type'', PStr ''PingCommand'')]) ''type'' = Inr (PStr ''PingCommand'')"
    by (simp add: py_get_def)
  have g2: "py_get (PDict [(''type'', PStr ''MyGetInfoCommandV2''), (''varName'', PStr ''df'')]) ''type''
       = Inr (PStr ''MyGetInfoCommandV2'')"
    by (simp add: py_get_def)
  have s: "\<not> sublist ''LoadCommand'' ''PingCommand''" "\<not> sublist ''ExecuteCommand'' ''PingCommand''"
    "\<not> sublist ''GetInfoCommand'' ''PingCommand''" "sublist ''GetInfoCommand'' ''MyGetInfoCommandV2''"
    "\<not> sublist ''LoadCommand'' ''MyGetInfoCommandV2''" "\<not> sublist ''ExecuteCommand'' ''MyGetInfoCommandV2''"
    by (simp_all add: sublist_Cons_right)
  from dispatch_by_containment [OF g1, of demo_ext demo_state \<open>''{"type":"PingCommand"}''\<close>]
       dispatch_by_containment [OF g2, of demo_ext demo_state]
       l g1 g2 s
  show ?thesis by simp
qed

subsection \<open>Load\<close>

lemma load_table_suffix:
  "suffix ''.csv'' p \<Longrightarrow> load_table ext (PStr p) = map_sum OtherException id (read_csv ext p)"
  "suffix ''.xlsx'' p \<Longrightarrow> load_table ext (PStr p) = map_sum OtherException id (read_excel ext p)"
  "suffix ''.json'' p \<Longrightarrow> load_table ext (PStr p) = map_sum OtherException id (read_json ext p)"
  "suffix ''.parquet'' p \<Longrightarrow>
     load_table ext (PStr p) = map_sum OtherException id (read_parquet ext p)"
  using xlsx_not_csv [of p] json_not_before [of p] parquet_not_before [of p]
  by (simp_all add: load_table_def)

lemma load_table_error:
  assumes "load_table ext path = Inl e"
  shows "is_Exception e \<and> (\<exists>m. exn_str e = Inr m)"
  using assms
  by (cases path) (auto simp: load_table_def map_sum_def split: if_splits sum.splits)


lemma stdout_error_Exception:
  assumes "stdout_error ext s = Some e"
  shows "is_Exception e \<and> (\<exists>m. exn_str e = Inr m)"
  using assms by (auto simp: stdout_error_def split: if_splits)

lemma load_except_reports:
  assumes "is_Exception e" "exn_str e = Inr m"
  shows "load_except ext path e st
           = ([Print Stderr (''PYTHON_ERROR: Failed to load data from '' @ fmt ext path
                              @ ''. Error: '' @ m) False], st, Returned)"
  using assms by (simp add: load_except_def error_line_def)

lemma load_handler_reader_fails:
  assumes "py_get command_data ''path'' = Inr path"
    and "py_get command_data ''varName'' = Inr var_name"
    and "load_table ext path = Inl e" and "exn_str e = Inr m"
  shows "load_handler ext command_data st
           = ([Print Stderr (''PYTHON_ERROR: Failed to load data from '' @ fmt ext path
                              @ ''. Error: '' @ m) False], st, Returned)"
  using assms load_table_error [OF assms(3)]
  by (simp add: load_handler_def load_except_reports)

lemma load_handler_unhashable:
  assumes "py_get command_data ''path'' = Inr path"
    and "py_get command_data ''varName'' = Inr var_name"
    and "load_table ext path = Inr df" and "py_hash_key var_name = None"
  shows "load_handler ext command_data st
           = ([Print Stderr (''PYTHON_ERROR: Failed to load data from '' @ fmt ext path
                              @ ''. Error: unhashable type: '' @ quote @ type_name var_name @ quote)
                 False], st, Returned)"
  using assms by (simp add: load_handler_def store_df_def load_except_reports)

lemma load_handler_success:
  assumes "py_get command_data ''path'' = Inr path"
    and "py_get command_data ''varName'' = Inr var_name"
    and "load_table ext path = Inr df" and "py_hash_key var_name = Some k"
    and "stdout_error ext (success_text ext path var_name) = None"
  shows "load_handler ext command_data st
           = ([Print Stdout (''Successfully loaded '' @ quote @ fmt ext path @ quote
                             @ '' into DataFrame '' @ quote @ fmt ext var_name @ quote @ ''.'') False],
              st\<lparr>dataframes := AList.update k (next_ref st) (dataframes st),
                 heap := (heap st)(next_ref st := df),
                 next_ref := Suc (next_ref st)\<rparr>,
              Returned)"
  using assms by (simp add: load_handler_def store_df_def success_text_def)

lemma load_handler_print_fails:
  assumes "py_get command_data ''path'' = Inr path"
    and "py_get command_data ''varName'' = Inr var_name"
    and "load_table ext path = Inr df" and "py_hash_key var_name = Some k"
    and "stdout_error ext (success_text ext path var_name) = Some e" and "exn_str e = Inr m"
  shows "load_handler ext command_data st
           = ([Print Stderr (''PYTHON_ERROR: Failed to load data from '' @ fmt ext path
                              @ ''. Error: '' @ m) False],
              st\<lparr>dataframes := AList.update k (next_ref st) (dataframes st),
                 heap := (heap st)(next_ref st := df),
                 next_ref := Suc (next_ref st)\<rparr>,
              Returned)"
  using assms stdout_error_Exception [OF assms(5)]
  by (simp add: load_handler_def store_df_def load_except_reports)


text \<open>
  C4. For a Load command with a string path, the reader is chosen by the end of the
  path: \<^verbatim>\<open>.csv\<close>, \<^verbatim>\<open>.xlsx\<close>, \<^verbatim>\<open>.json\<close> and \<^verbatim>\<open>.parquet\<close> go to \<^verbatim>\<open>read_csv\<close>,
  \<^verbatim>\<open>read_excel\<close>, \<^verbatim>\<open>read_json\<close> and \<^verbatim>\<open>read_parquet\<close>, and what the command does is
  decided by the result of that reader alone: its error is the error reported, its table
  is the table stored. A path that ends in none of the four makes the command print one
  diagnostic on standard error, which names the path twice: in the report of the kernel
  and in the text of the \<^verbatim>\<open>ValueError\<close> for the unsupported type.
\<close>

theorem load_by_extension:
  assumes "py_get command_data ''path'' = Inr (PStr p)"
    and "py_get command_data ''varName'' = Inr var_name"
  shows "(\<forall>(sfx, reader) \<in> set [(''.csv'', read_csv ext), (''.xlsx'', read_excel ext),
                                   (''.json'', read_json ext), (''.parquet'', read_parquet ext)].
            suffix sfx p \<longrightarrow>
              (\<forall>m. reader p = Inl m \<longrightarrow>
                 load_handler ext command_data st
                   = ([Print Stderr (''PYTHON_ERROR: Failed to load data from '' @ p
                                      @ ''. Error: '' @ m) False], st, Returned))
            \<and> (\<forall>df k. reader p = Inr df \<and> py_hash_key var_name = Some k
                      \<and> stdout_error ext (success_text ext (PStr p) var_name) = None \<longrightarrow>
                 load_handler ext command_data st
                   = ([Print Stdout (''Successfully loaded '' @ quote @ p @ quote
                                     @ '' into DataFrame '' @ quote @ fmt ext var_name @ quote
                                     @ ''.'') False],
                      st\<lparr>dataframes := AList.update k (next_ref st) (dataframes st),
                         heap := (heap st)(next_ref st := df),
                         next_ref := Suc (next_ref st)\<rparr>,
                      Returned)))
       \<and> (\<not> suffix ''.csv'' p \<and> \<not> suffix ''.xlsx'' p \<and> \<not> suffix ''.json'' p
            \<and> \<not> suffix ''.parquet'' p \<longrightarrow>
            load_handler ext command_data st
              = ([Print Stderr (''PYTHON_ERROR: Failed to load data from '' @ p
                                 @ ''. Error: Unsupported file type for: '' @ p) False],
                 st, Returned))"
proof -
  have r: "(\<forall>m. reader p = Inl m \<longrightarrow>
                 load_handler ext command_data st
                   = ([Print Stderr (''PYTHON_ERROR: Failed to load data from '' @ p
                                      @ ''. Error: '' @ m) False], st, Returned))
            \<and> (\<forall>df k. reader p = Inr df \<and> py_hash_key var_name = Some k
                      \<and> stdout_error ext (success_text ext (PStr p) var_name) = None \<longrightarrow>
                 load_handler ext command_data st
                   = ([Print Stdout (''Successfully loaded '' @ quote @ p @ quote
                                     @ '' into DataFrame '' @ quote @ fmt ext var_name @ quote
                                     @ ''.'') False],
                      st\<lparr>dataframes := AList.update k (next_ref st) (dataframes st),
                         heap := (heap st)(next_ref st := df),
                         next_ref := Suc (next_ref st)\<rparr>,
                      Returned))"
    if t: "load_table ext (PStr p) = map_sum OtherException id (reader p)"
    for reader :: "string \<Rightarrow> string + 'a"
  proof (intro conjI allI impI)
    fix m
    assume "reader p = Inl m"
    with t have "load_table ext (PStr p) = Inl (OtherException m)" by simp
    from load_handler_reader_fails [OF assms this, of m st]
    show "load_handler ext command_data st
            = ([Print Stderr (''PYTHON_ERROR: Failed to load data from '' @ p
                               @ ''. Error: '' @ m) False], st, Returned)"
      by (simp add: fmt_def)
  next
    fix df k
    assume a: "reader p = Inr df \<and> py_hash_key var_name = Some k
               \<and> stdout_error ext (success_text ext (PStr p) var_name) = None"
    with t have "load_table ext (PStr p) = Inr df" by simp
    from load_handler_success [OF assms this, of k st] a
    show "load_handler ext command_data st
            = ([Print Stdout (''Successfully loaded '' @ quote @ p @ quote
                              @ '' into DataFrame '' @ quote @ fmt ext var_name @ quote
                              @ ''.'') False],
               st\<lparr>dataframes := AList.update k (next_ref st) (dataframes st),
                  heap := (heap st)(next_ref st := df),
                  next_ref := Suc (next_ref st)\<rparr>,
               Returned)"
      by (simp add: fmt_def)
  qed
  have u: "load_handler ext command_data st
              = ([Print Stderr (''PYTHON_ERROR: Failed to load data from '' @ p
                                 @ ''. Error: Unsupported file type for: '' @ p) False],
                 st, Returned)"
    if n: "\<not> suffix ''.csv'' p \<and> \<not> suffix ''.xlsx'' p \<and> \<not> suffix ''.json'' p
            \<and> \<not> suffix ''.parquet'' p"
  proof -
    from n have "load_table ext (PStr p) = Inl (ValueError (''Unsupported file type for: '' @ p))"
      by (simp add: load_table_def)
    from load_handler_reader_fails [OF assms this, of "''Unsupported file type for: '' @ p" st]
    show ?thesis by (simp add: fmt_def)
  qed
  from r [of "read_csv ext"] r [of "read_excel ext"] r [of "read_json ext"]
       r [of "read_parquet ext"] load_table_suffix [of p ext] u
  show ?thesis by simp
qed

theorem load_by_extension_witness:
  "py_get (PDict [(''type'', PStr ''LoadCommand''), (''path'', PStr ''data.csv''),
                  (''varName'', PStr ''df'')]) ''path'' = Inr (PStr ''data.csv'')
   \<and> py_get (PDict [(''type'', PStr ''LoadCommand''), (''path'', PStr ''data.csv''),
                    (''varName'', PStr ''df'')]) ''varName'' = Inr (PStr ''df'')
   \<and> suffix ''.csv'' ''data.csv''
   \<and> read_csv demo_ext ''data.csv'' = Inr ''a,b''
   \<and> py_hash_key (PStr ''df'') = Some (KStr ''df'')
   \<and> stdout_error demo_ext (success_text demo_ext (PStr ''data.csv'') (PStr ''df'')) = None
   \<and> load_handler demo_ext
        (PDict [(''type'', PStr ''LoadCommand''), (''path'', PStr ''data.csv''),
                (''varName'', PStr ''df'')]) demo_state
      = ([Print Stdout (''Successfully loaded '' @ quote @ ''data.csv'' @ quote
                        @ '' into DataFrame '' @ quote @ ''df'' @ quote @ ''.'') False],
         \<lparr>dataframes = [(KStr ''df'', 0)], heap = (\<lambda>r. [])(0 := ''a,b''), next_ref = 1,
            stdin = []\<rparr>, Returned)
   \<and> py_get (PDict [(''type'', PStr ''LoadCommand''), (''path'', PStr ''book.xlsx''),
                    (''varName'', PStr ''df'')]) ''path'' = Inr (PStr ''book.xlsx'')
   \<and> suffix ''.xlsx'' ''book.xlsx''
   \<and> read_excel demo_ext ''book.xlsx'' = Inl ''No such file''
   \<and> load_handler demo_ext
        (PDict [(''type'', PStr ''LoadCommand''), (''path'', PStr ''book.xlsx''),
                (''varName'', PStr ''df'')]) demo_state
      = ([Print Stderr ''PYTHON_ERROR: Failed to load data from book.xlsx. Error: No such file''
            False], demo_state, Returned)
   \<and> py_get (PDict [(''type'', PStr ''LoadCommand''), (''path'', PStr ''notes.txt''),
                    (''varName'', PStr ''df'')]) ''path'' = Inr (PStr ''notes.txt'')
   \<and> \<not> suffix ''.csv'' ''notes.txt'' \<and> \<not> suffix ''.xlsx'' ''notes.txt''
   \<and> \<not> suffix ''.json'' ''notes.txt'' \<and> \<not> suffix ''.parquet'' ''notes.txt''
   \<and> load_handler demo_ext
        (PDict [(''type'', PStr ''LoadCommand''), (''path'', PStr ''notes.txt''),
                (''varName'', PStr ''df'')]) demo_state
      = ([Print Stderr
           ''PYTHON_ERROR: Failed to load data from notes.txt. Error: Unsupported file type for: notes.txt''
           False], demo_state, Returned)"
proof -
  have g1: "py_get (PDict [(''type'', PStr ''LoadCommand''), (''path'', PStr ''data.csv''),
                  (''varName'', PStr ''df'')]) ''path'' = Inr (PStr ''data.csv'')"
    and v1: "py_get (PDict [(''type'', PStr ''LoadCommand''), (''path'', PStr ''data.csv''),
                  (''varName'', PStr ''df'')]) ''varName'' = Inr (PStr ''df'')"
    and g2: "py_get (PDict [(''type'', PStr ''LoadCommand''), (''path'', PStr ''book.xlsx''),
                  (''varName'', PStr ''df'')]) ''path'' = Inr (PStr ''book.xlsx'')"
    and v2: "py_get (PDict [(''type'', PStr ''LoadCommand''), (''path'', PStr ''book.xlsx''),
                  (''varName'', PStr ''df'')]) ''varName'' = Inr (PStr ''df'')"
    and g3: "py_get (PDict [(''type'', PStr ''LoadCommand''), (''path'', PStr ''notes.txt''),
                  (''varName'', PStr ''df'')]) ''path'' = Inr (PStr ''notes.txt'')"
    and v3: "py_get (PDict [(''type'', PStr ''LoadCommand''), (''path'', PStr ''notes.txt''),
                  (''varName'', PStr ''df'')]) ''varName'' = Inr (PStr ''df'')"
    by (simp_all add: py_get_def)
  have s: "suffix ''.csv'' ''data.csv''" "suffix ''.xlsx'' ''book.xlsx''"
    "\<not> suffix ''.csv'' ''notes.txt''" "\<not> suffix ''.xlsx'' ''notes.txt''"
    "\<not> suffix ''.json'' ''notes.txt''" "\<not> suffix ''.parquet'' ''notes.txt''"
    by (simp_all add: suffix_to_prefix)
  have r: "read_csv demo_ext ''data.csv'' = Inr ''a,b''"
    "read_excel demo_ext ''book.xlsx'' = Inl ''No such file''"
    by (simp_all add: demo_ext_def)
  have o: "stdout_error demo_ext (success_text demo_ext (PStr ''data.csv'') (PStr ''df'')) = None"
    by (simp add: stdout_error_def success_text_def fmt_def is_ascii_def)
  from load_by_extension [OF g1 v1, of demo_ext demo_state] s r o
  have w1: "load_handler demo_ext
        (PDict [(''type'', PStr ''LoadCommand''), (''path'', PStr ''data.csv''),
                (''varName'', PStr ''df'')]) demo_state
      = ([Print Stdout (''Successfully loaded '' @ quote @ ''data.csv'' @ quote
                        @ '' into DataFrame '' @ quote @ ''df'' @ quote @ ''.'') False],
         \<lparr>dataframes = [(KStr ''df'', 0)], heap = (\<lambda>r. [])(0 := ''a,b''), next_ref = 1,
            stdin = []\<rparr>, Returned)"
    by (simp add: fmt_def demo_state_def init_state_def)
  from load_by_extension [OF g2 v2, of demo_ext demo_state] s r
  have w2: "load_handler demo_ext
        (PDict [(''type'', PStr ''LoadCommand''), (''path'', PStr ''book.xlsx''),
                (''varName'', PStr ''df'')]) demo_state
      = ([Print Stderr ''PYTHON_ERROR: Failed to load data from book.xlsx. Error: No such file''
            False], demo_state, Returned)"
    by simp
  from load_by_extension [OF g3 v3, of demo_ext demo_state] s
  have w3: "load_handler demo_ext
        (PDict [(''type'', PStr ''LoadCommand''), (''path'', PStr ''notes.txt''),
                (''varName'', PStr ''df'')]) demo_state
      = ([Print Stderr
           ''PYTHON_ERROR: Failed to load data from notes.txt. Error: Unsupported file type for: notes.txt''
           False], demo_state, Returned)"
    by simp
  from g1 v1 g2 g3 s r o w1 w2 w3 show ?thesis by simp
qed

text \<open>
  C5, at a Load of \<^verbatim>\<open>data.csv\<close> under the name \<^verbatim>\<open>\ud800\<close>, from the empty table. The reader
  returns and line 39 stores the table; line 40, still inside the \<^verbatim>\<open>try\<close>, cannot write
  the confirmation and raises \<^verbatim>\<open>UnicodeEncodeError\<close>; the \<^verbatim>\<open>except\<close> clause reports that
  the data could not be loaded. The command has failed and printed its diagnostic, and
  the dataset table is not what it was: it holds the new entry.
\<close>

theorem load_print_failure_changes_table:
  \<open>json_loads demo_ext load_surrogate_line
     = Decoded (PDict [(''type'', PStr ''LoadCommand''), (''path'', PStr ''data.csv''),
                       (''varName'', PStr surrogate)])
   \<and> dataframes (init_state (\<lambda>r. []) [load_surrogate_line]) = []
   \<and> main demo_ext (\<lambda>r. []) [load_surrogate_line]
       = ([Print Stderr
             ''PYTHON_ERROR: Failed to load data from data.csv. Error: surrogates not allowed''
             False, sentinel],
          \<lparr>dataframes = [(KStr surrogate, 0)], heap = (\<lambda>r. [])(0 := ''a,b''), next_ref = 1,
             stdin = []\<rparr>, Returned)\<close>
proof -
  have a: \<open>json_loads demo_ext load_surrogate_line
     = Decoded (PDict [(''type'', PStr ''LoadCommand''), (''path'', PStr ''data.csv''),
                       (''varName'', PStr surrogate)])\<close>
    by (simp add: demo_defs)
  have b: "dataframes (init_state (\<lambda>r. []) [load_surrogate_line]) = []"
    by (simp add: init_state_def)
  have c: \<open>main demo_ext (\<lambda>r. []) [load_surrogate_line]
       = ([Print Stderr
             ''PYTHON_ERROR: Failed to load data from data.csv. Error: surrogates not allowed''
             False, sentinel],
          \<lparr>dataframes = [(KStr surrogate, 0)], heap = (\<lambda>r. [])(0 := ''a,b''), next_ref = 1,
             stdin = []\<rparr>, Returned)\<close>
    unfolding main_def
    by (subst main_loop.simps, simp add: model_defs demo_defs)+
  from a b c show ?thesis by blast
qed

lemma store_df_distinct:
  assumes "store_df var_name df st = Inr st'" "distinct (map fst (dataframes st))"
  shows "distinct (map fst (dataframes st'))"
  using assms by (auto simp: store_df_def distinct_update split: option.splits)

lemma load_except_state: "fst (snd (load_except ext path e st)) = st"
  by (simp add: load_except_def split: sum.splits)

lemma load_handler_distinct:
  assumes "distinct (map fst (dataframes st))"
  shows "distinct (map fst (dataframes (fst (snd (load_handler ext c st)))))"
  using assms
  by (auto simp: load_handler_def load_except_state split: sum.splits option.splits
           dest: store_df_distinct)

lemma execute_code_dataframes:
  "dataframes (fst (snd (execute_code ext code st))) = dataframes st"
  by (simp add: execute_code_def Let_def split: outcome.splits sum.splits)

lemma execute_handler_dataframes:
  "dataframes (fst (snd (execute_handler ext c st))) = dataframes st"
  by (simp add: execute_handler_def execute_code_dataframes split: sum.splits)

lemma getinfo_handler_state: "fst (snd (getinfo_handler ext c st)) = st"
  by (simp add: getinfo_handler_def split: sum.splits option.splits)

lemma dispatch_distinct:
  assumes "distinct (map fst (dataframes st))"
  shows "distinct (map fst (dataframes (fst (snd (dispatch ext c st)))))"
  using assms
  by (simp add: dispatch_def load_handler_distinct execute_handler_dataframes
        getinfo_handler_state split: sum.splits bool.splits)

lemma handle_line_distinct:
  assumes "distinct (map fst (dataframes st))"
  shows "distinct (map fst (dataframes (fst (snd (handle_line ext line st)))))"
proof -
  have "distinct (map fst (dataframes (fst (snd (try_body ext line st)))))"
    using assms dispatch_distinct [OF assms, of ext]
    by (simp add: try_body_def split: decoded.splits)
  then show ?thesis by (simp add: handle_line_state)
qed

lemma main_loop_distinct:
  assumes "distinct (map fst (dataframes st))"
  shows "distinct (map fst (dataframes (fst (snd (main_loop ext st)))))"
  using assms
proof (induction ext st rule: main_loop.induct)
  case (1 ext st)
  show ?case
  proof (cases "stdin st")
    case Nil
    with "1.prems" show ?thesis by (simp add: main_loop_Nil)
  next
    case (Cons line rest)
    obtain evs st' oc where h: "handle_line ext line (st\<lparr>stdin := rest\<rparr>) = (evs, st', oc)"
      by (cases "handle_line ext line (st\<lparr>stdin := rest\<rparr>)") auto
    from "1.prems" have "distinct (map fst (dataframes (st\<lparr>stdin := rest\<rparr>)))" by simp
    from handle_line_distinct [OF this, of ext line] h
    have d: "distinct (map fst (dataframes st'))" by simp
    show ?thesis
    proof (cases "oc = Returned")
      case True
      from "1.IH" [OF Cons h [symmetric] refl True d]
      have "distinct (map fst (dataframes (fst (snd (main_loop ext st')))))" by simp
      moreover from Cons h True
      have "main_loop ext st = (case main_loop ext st' of (evs', r) \<Rightarrow> (evs @ evs', r))"
        using main_loop_Cons by blast
      ultimately show ?thesis by (auto split: prod.splits)
    next
      case False
      with Cons h have "main_loop ext st = (evs, st', oc)"
        using main_loop_Cons_stops by blast
      with d show ?thesis by simp
    qed
  qed
qed

text \<open>
  C6, as stated, at two Load commands of \<^verbatim>\<open>data.csv\<close> that store their table. Under the
  name \<^verbatim>\<open>a\nb\<close> the confirmation is two lines of standard output, not one. Under the
  name \<^verbatim>\<open>\ud800\<close> the table gets its entry and standard output gets no confirmation
  at all, only the sentinel.
\<close>

theorem load_confirmation_counterexample:
  \<open>lines_of (chan_text Stdout (fst (main demo_ext (\<lambda>r. []) [load_two_lines_line])))
     = [''Successfully loaded '' @ quote @ ''data.csv'' @ quote @ '' into DataFrame '' @ quote @ ''a'',
        ''b'' @ quote @ ''.'',
        ''<END_OF_OUTPUT>'']
   \<and> chan_text Stdout (fst (main demo_ext (\<lambda>r. []) [load_surrogate_line])) = ''<END_OF_OUTPUT>\<newline>''
   \<and> map_of (dataframes (fst (snd (main demo_ext (\<lambda>r. []) [load_surrogate_line])))) (KStr surrogate)
       = Some 0\<close>
proof -
  have a: \<open>main demo_ext (\<lambda>r. []) [load_two_lines_line]
       = ([Print Stdout (''Successfully loaded '' @ quote @ ''data.csv'' @ quote
                        @ '' into DataFrame '' @ quote @ ''a\<newline>b'' @ quote @ ''.'') False, sentinel],
          \<lparr>dataframes = [(KStr ''a\<newline>b'', 0)], heap = (\<lambda>r. [])(0 := ''a,b''), next_ref = 1,
             stdin = []\<rparr>, Returned)\<close>
    unfolding main_def
    by (subst main_loop.simps, simp add: model_defs demo_defs)+
  have b: \<open>main demo_ext (\<lambda>r. []) [load_surrogate_line]
       = ([Print Stderr
             ''PYTHON_ERROR: Failed to load data from data.csv. Error: surrogates not allowed''
             False, sentinel],
          \<lparr>dataframes = [(KStr surrogate, 0)], heap = (\<lambda>r. [])(0 := ''a,b''), next_ref = 1,
             stdin = []\<rparr>, Returned)\<close>
    unfolding main_def
    by (subst main_loop.simps, simp add: model_defs demo_defs)+
  show ?thesis
    by (simp add: a b chan_text_def lines_of_def sentinel_def)
qed

text \<open>
  C6, amended. The dataset table never holds two entries of one name: this holds of the
  table \<^verbatim>\<open>main\<close> ends with on any input, and every line preserves it. A Load command
  whose reader returns a table, whose name is hashable and whose confirmation standard
  output can write prints that confirmation, puts the table read into a new object and
  binds the name to that object: an entry of that name is replaced where it stands, the
  entries of other names are untouched, and no entry is added when the name was there.
  The confirmation is one line when the path and the name hold no line break.
\<close>

theorem table_one_entry_per_name:
  "distinct (map fst (dataframes (fst (snd (main ext h lines)))))
   \<and> (distinct (map fst (dataframes st)) \<longrightarrow>
        distinct (map fst (dataframes (fst (snd (handle_line ext line st))))))
   \<and> (py_get command_data ''path'' = Inr path \<and> py_get command_data ''varName'' = Inr var_name
        \<and> load_table ext path = Inr df \<and> py_hash_key var_name = Some k
        \<and> stdout_error ext (success_text ext path var_name) = None \<longrightarrow>
        load_handler ext command_data st
          = ([Print Stdout (''Successfully loaded '' @ quote @ fmt ext path @ quote
                            @ '' into DataFrame '' @ quote @ fmt ext var_name @ quote @ ''.'') False],
             st\<lparr>dataframes := AList.update k (next_ref st) (dataframes st),
                heap := (heap st)(next_ref st := df),
                next_ref := Suc (next_ref st)\<rparr>,
             Returned)
        \<and> (newline \<notin> set (fmt ext path) \<and> newline \<notin> set (fmt ext var_name) \<longrightarrow>
              lines_of (chan_text Stdout (fst (load_handler ext command_data st)))
                = [''Successfully loaded '' @ quote @ fmt ext path @ quote
                   @ '' into DataFrame '' @ quote @ fmt ext var_name @ quote @ ''.''])
        \<and> map_of (AList.update k (next_ref st) (dataframes st)) k = Some (next_ref st)
        \<and> ((heap st)(next_ref st := df)) (next_ref st) = df
        \<and> (\<forall>k'. k' \<noteq> k \<longrightarrow>
              map_of (AList.update k (next_ref st) (dataframes st)) k' = map_of (dataframes st) k')
        \<and> (k \<in> fst ` set (dataframes st) \<longrightarrow>
              map fst (AList.update k (next_ref st) (dataframes st)) = map fst (dataframes st)))"
proof (intro conjI impI)
  show "distinct (map fst (dataframes (fst (snd (main ext h lines)))))"
    by (simp add: main_def main_loop_distinct init_state_def)
next
  assume "distinct (map fst (dataframes st))"
  then show "distinct (map fst (dataframes (fst (snd (handle_line ext line st)))))"
    by (rule handle_line_distinct)
next
  assume a: "py_get command_data ''path'' = Inr path \<and> py_get command_data ''varName'' = Inr var_name
        \<and> load_table ext path = Inr df \<and> py_hash_key var_name = Some k
        \<and> stdout_error ext (success_text ext path var_name) = None"
  then have a1: "py_get command_data ''path'' = Inr path"
    and a2: "py_get command_data ''varName'' = Inr var_name"
    and a3: "load_table ext path = Inr df" and a4: "py_hash_key var_name = Some k"
    and a5: "stdout_error ext (success_text ext path var_name) = None"
    by simp_all
  show h: "load_handler ext command_data st
          = ([Print Stdout (''Successfully loaded '' @ quote @ fmt ext path @ quote
                            @ '' into DataFrame '' @ quote @ fmt ext var_name @ quote @ ''.'') False],
             st\<lparr>dataframes := AList.update k (next_ref st) (dataframes st),
                heap := (heap st)(next_ref st := df),
                next_ref := Suc (next_ref st)\<rparr>,
             Returned)"
    using a1 a2 a3 a4 a5 by (rule load_handler_success)
  assume n: "newline \<notin> set (fmt ext path) \<and> newline \<notin> set (fmt ext var_name)"
  then have "newline \<notin> set (''Successfully loaded '' @ quote @ fmt ext path @ quote
                   @ '' into DataFrame '' @ quote @ fmt ext var_name @ quote @ ''.'')"
    by simp
  from lines_of_single [OF this] h
  show "lines_of (chan_text Stdout (fst (load_handler ext command_data st)))
                = [''Successfully loaded '' @ quote @ fmt ext path @ quote
                   @ '' into DataFrame '' @ quote @ fmt ext var_name @ quote @ ''.'']"
    by (simp add: chan_text_def)
next
  show "map_of (AList.update k (next_ref st) (dataframes st)) k = Some (next_ref st)"
    by (simp add: update_conv')
next
  show "((heap st)(next_ref st := df)) (next_ref st) = df"
    by simp
next
  show "\<forall>k'. k' \<noteq> k \<longrightarrow>
          map_of (AList.update k (next_ref st) (dataframes st)) k' = map_of (dataframes st) k'"
    by (simp add: update_conv')
next
  assume "k \<in> fst ` set (dataframes st)"
  then show "map fst (AList.update k (next_ref st) (dataframes st)) = map fst (dataframes st)"
    by (simp add: update_keys)
qed

theorem table_one_entry_per_name_witness:
  "distinct (map fst [(KStr ''df'', 0::nat)])
   \<and> py_get (PDict [(''type'', PStr ''LoadCommand''), (''path'', PStr ''data.csv''),
                    (''varName'', PStr ''df'')]) ''path'' = Inr (PStr ''data.csv'')
   \<and> py_get (PDict [(''type'', PStr ''LoadCommand''), (''path'', PStr ''data.csv''),
                    (''varName'', PStr ''df'')]) ''varName'' = Inr (PStr ''df'')
   \<and> load_table demo_ext (PStr ''data.csv'') = Inr ''a,b''
   \<and> py_hash_key (PStr ''df'') = Some (KStr ''df'')
   \<and> stdout_error demo_ext (success_text demo_ext (PStr ''data.csv'') (PStr ''df'')) = None
   \<and> newline \<notin> set (fmt demo_ext (PStr ''data.csv''))
   \<and> newline \<notin> set (fmt demo_ext (PStr ''df''))
   \<and> KStr ''df'' \<in> fst ` set [(KStr ''df'', 0::nat)]
   \<and> load_handler demo_ext
         (PDict [(''type'', PStr ''LoadCommand''), (''path'', PStr ''data.csv''),
                 (''varName'', PStr ''df'')])
         \<lparr>dataframes = [(KStr ''df'', 0)], heap = (\<lambda>r. ''old''), next_ref = 1, stdin = []\<rparr>
       = ([Print Stdout (''Successfully loaded '' @ quote @ ''data.csv'' @ quote
                         @ '' into DataFrame '' @ quote @ ''df'' @ quote @ ''.'') False],
          \<lparr>dataframes = [(KStr ''df'', 1)], heap = (\<lambda>r. ''old'')(1 := ''a,b''), next_ref = 2,
             stdin = []\<rparr>,
          Returned)
   \<and> lines_of (chan_text Stdout (fst (load_handler demo_ext
         (PDict [(''type'', PStr ''LoadCommand''), (''path'', PStr ''data.csv''),
                 (''varName'', PStr ''df'')])
         \<lparr>dataframes = [(KStr ''df'', 0)], heap = (\<lambda>r. ''old''), next_ref = 1, stdin = []\<rparr>)))
       = [''Successfully loaded '' @ quote @ ''data.csv'' @ quote
          @ '' into DataFrame '' @ quote @ ''df'' @ quote @ ''.'']
   \<and> distinct (map fst (dataframes (fst (snd (handle_line demo_ext ''garbage''
          \<lparr>dataframes = [(KStr ''df'', 0)], heap = (\<lambda>r. ''old''), next_ref = 1, stdin = []\<rparr>)))))"
proof -
  have d: "distinct (map fst [(KStr ''df'', 0::nat)])" by simp
  have g1: "py_get (PDict [(''type'', PStr ''LoadCommand''), (''path'', PStr ''data.csv''),
                    (''varName'', PStr ''df'')]) ''path'' = Inr (PStr ''data.csv'')"
    by (simp add: py_get_def)
  have g2: "py_get (PDict [(''type'', PStr ''LoadCommand''), (''path'', PStr ''data.csv''),
                    (''varName'', PStr ''df'')]) ''varName'' = Inr (PStr ''df'')"
    by (simp add: py_get_def)
  have t: "load_table demo_ext (PStr ''data.csv'') = Inr ''a,b''"
    by (simp add: load_table_def demo_ext_def suffix_to_prefix)
  have o: "stdout_error demo_ext (success_text demo_ext (PStr ''data.csv'') (PStr ''df'')) = None"
    by (simp add: stdout_error_def success_text_def fmt_def is_ascii_def)
  have n: "newline \<notin> set (fmt demo_ext (PStr ''data.csv''))"
    "newline \<notin> set (fmt demo_ext (PStr ''df''))"
    by (simp_all add: fmt_def)
  note T = table_one_entry_per_name
         [where ext = demo_ext and path = "PStr ''data.csv''" and var_name = "PStr ''df''"
            and df = "''a,b''" and k = "KStr ''df''" and line = "''garbage''"
            and h = "\<lambda>r. []" and lines = "[]"
            and st = "\<lparr>dataframes = [(KStr ''df'', 0)], heap = (\<lambda>r. ''old''), next_ref = 1,
                        stdin = []\<rparr>"
            and command_data = "PDict [(''type'', PStr ''LoadCommand''),
                  (''path'', PStr ''data.csv''), (''varName'', PStr ''df'')]"]
  from T g1 g2 t o
  have w1: "load_handler demo_ext
         (PDict [(''type'', PStr ''LoadCommand''), (''path'', PStr ''data.csv''),
                 (''varName'', PStr ''df'')])
         \<lparr>dataframes = [(KStr ''df'', 0)], heap = (\<lambda>r. ''old''), next_ref = 1, stdin = []\<rparr>
       = ([Print Stdout (''Successfully loaded '' @ quote @ ''data.csv'' @ quote
                         @ '' into DataFrame '' @ quote @ ''df'' @ quote @ ''.'') False],
          \<lparr>dataframes = [(KStr ''df'', 1)], heap = (\<lambda>r. ''old'')(1 := ''a,b''), next_ref = 2,
             stdin = []\<rparr>,
          Returned)"
    by (simp add: fmt_def)
  have hyp: "py_get (PDict [(''type'', PStr ''LoadCommand''), (''path'', PStr ''data.csv''),
                    (''varName'', PStr ''df'')]) ''path'' = Inr (PStr ''data.csv'')
      \<and> py_get (PDict [(''type'', PStr ''LoadCommand''), (''path'', PStr ''data.csv''),
                    (''varName'', PStr ''df'')]) ''varName'' = Inr (PStr ''df'')
      \<and> load_table demo_ext (PStr ''data.csv'') = Inr ''a,b''
      \<and> py_hash_key (PStr ''df'') = Some (KStr ''df'')
      \<and> stdout_error demo_ext (success_text demo_ext (PStr ''data.csv'') (PStr ''df'')) = None"
    using g1 g2 t o by simp
  have nn: "newline \<notin> set (fmt demo_ext (PStr ''data.csv''))
      \<and> newline \<notin> set (fmt demo_ext (PStr ''df''))"
    using n by simp
  from T hyp nn
  have "lines_of (chan_text Stdout (fst (load_handler demo_ext
         (PDict [(''type'', PStr ''LoadCommand''), (''path'', PStr ''data.csv''),
                 (''varName'', PStr ''df'')])
         \<lparr>dataframes = [(KStr ''df'', 0)], heap = (\<lambda>r. ''old''), next_ref = 1, stdin = []\<rparr>)))
       = [''Successfully loaded '' @ quote @ fmt demo_ext (PStr ''data.csv'') @ quote
          @ '' into DataFrame '' @ quote @ fmt demo_ext (PStr ''df'') @ quote @ ''.'']"
    by blast
  then
  have w2: "lines_of (chan_text Stdout (fst (load_handler demo_ext
         (PDict [(''type'', PStr ''LoadCommand''), (''path'', PStr ''data.csv''),
                 (''varName'', PStr ''df'')])
         \<lparr>dataframes = [(KStr ''df'', 0)], heap = (\<lambda>r. ''old''), next_ref = 1, stdin = []\<rparr>)))
       = [''Successfully loaded '' @ quote @ ''data.csv'' @ quote
          @ '' into DataFrame '' @ quote @ ''df'' @ quote @ ''.'']"
    by (simp add: fmt_def)
  from T d
  have w3: "distinct (map fst (dataframes (fst (snd (handle_line demo_ext ''garbage''
          \<lparr>dataframes = [(KStr ''df'', 0)], heap = (\<lambda>r. ''old''), next_ref = 1, stdin = []\<rparr>)))))"
    by simp
  have k: "KStr ''df'' \<in> fst ` set [(KStr ''df'', 0::nat)]" by simp
  have hk: "py_hash_key (PStr ''df'') = Some (KStr ''df'')" by simp
  show ?thesis
    by (intro conjI) (rule d g1 g2 t hk o n k w1 w2 w3)+
qed

subsection \<open>GetInfo\<close>

text \<open>
  C9, as stated, at three GetInfo commands. After a Load of \<^verbatim>\<open>empty.json\<close> as \<^verbatim>\<open>e\<close> the
  name is in the table, yet \<^verbatim>\<open>GetInfo e\<close> prints no report: \<^verbatim>\<open>describe\<close> raises
  \<^verbatim>\<open>ValueError\<close> on a frame without columns, nothing catches it, and the process ends.
  After a Load under the name \<^verbatim>\<open>\ud800\<close> the name is in the table, yet the report cannot
  be written: the print raises \<^verbatim>\<open>UnicodeEncodeError\<close> and the process ends. With the
  name \<^verbatim>\<open>[]\<close>, which is in no table, no not-found diagnostic is printed: the lookup
  raises \<^verbatim>\<open>TypeError\<close> and the process ends.
\<close>

theorem getinfo_report_counterexample:
  \<open>main demo_ext (\<lambda>r. [])
     [''{"type":"LoadCommand","path":"empty.json","varName":"e"}'',
      ''{"type":"GetInfoCommand","varName":"e"}'', ''{"type":"PingCommand"}'']
     = ([Print Stdout (''Successfully loaded '' @ quote @ ''empty.json'' @ quote
                       @ '' into DataFrame '' @ quote @ ''e'' @ quote @ ''.'') False, sentinel],
        \<lparr>dataframes = [(KStr ''e'', 0)], heap = (\<lambda>r. [])(0 := []), next_ref = 1,
           stdin = [''{"type":"PingCommand"}'']\<rparr>,
        Raised (ValueError ''Cannot describe a DataFrame without columns''))
   \<and> main demo_ext (\<lambda>r. []) [load_surrogate_line, getinfo_surrogate_line]
     = ([Print Stderr
           ''PYTHON_ERROR: Failed to load data from data.csv. Error: surrogates not allowed''
           False, sentinel],
        \<lparr>dataframes = [(KStr surrogate, 0)], heap = (\<lambda>r. [])(0 := ''a,b''), next_ref = 1,
           stdin = []\<rparr>,
        Raised (UnicodeEncodeError ''surrogates not allowed''))
   \<and> main demo_ext (\<lambda>r. []) [''{"type":"GetInfoCommand","varName":[]}'']
     = ([], init_state (\<lambda>r. []) [],
        Raised (TypeError (''unhashable type: '' @ quote @ ''list'' @ quote)))\<close>
proof -
  have a: \<open>main demo_ext (\<lambda>r. [])
     [''{"type":"LoadCommand","path":"empty.json","varName":"e"}'',
      ''{"type":"GetInfoCommand","varName":"e"}'', ''{"type":"PingCommand"}'']
     = ([Print Stdout (''Successfully loaded '' @ quote @ ''empty.json'' @ quote
                       @ '' into DataFrame '' @ quote @ ''e'' @ quote @ ''.'') False, sentinel],
        \<lparr>dataframes = [(KStr ''e'', 0)], heap = (\<lambda>r. [])(0 := []), next_ref = 1,
           stdin = [''{"type":"PingCommand"}'']\<rparr>,
        Raised (ValueError ''Cannot describe a DataFrame without columns''))\<close>
    unfolding main_def
    by (subst main_loop.simps, simp add: model_defs demo_defs)+
  have b: \<open>main demo_ext (\<lambda>r. []) [load_surrogate_line, getinfo_surrogate_line]
     = ([Print Stderr
           ''PYTHON_ERROR: Failed to load data from data.csv. Error: surrogates not allowed''
           False, sentinel],
        \<lparr>dataframes = [(KStr surrogate, 0)], heap = (\<lambda>r. [])(0 := ''a,b''), next_ref = 1,
           stdin = []\<rparr>,
        Raised (UnicodeEncodeError ''surrogates not allowed''))\<close>
    unfolding main_def
    by (subst main_loop.simps, simp add: model_defs demo_defs)+
  have c: \<open>main demo_ext (\<lambda>r. []) [''{"type":"GetInfoCommand","varName":[]}'']
     = ([], init_state (\<lambda>r. []) [],
        Raised (TypeError (''unhashable type: '' @ quote @ ''list'' @ quote)))\<close>
    unfolding main_def
    by (subst main_loop.simps, simp add: model_defs demo_defs)+
  from a b c show ?thesis by (intro conjI)
qed

text \<open>
  C9, amended. For a GetInfo command with a hashable name: when the name is not in the
  dataset table, one not-found line goes to standard error and nothing to standard
  output; when it is, and the three renderers of the library return, and standard
  output can write the text, one text goes to standard output: the header, then the
  section \<^verbatim>\<open>**Info:**\<close> with the structural summary, then
  \<^verbatim>\<open>**Descriptive Statistics:**\<close> with the statistics, then \<^verbatim>\<open>**First 5 Rows:**\<close> with
  the head, in this order. A report is printed in that case and in no other; in
  particular never for a name that is not in the table. The state is unchanged.
\<close>

theorem getinfo_report:
  assumes "py_get command_data ''varName'' = Inr var_name"
    and "py_hash_key var_name = Some k"
  shows "(map_of (dataframes st) k = None \<longrightarrow>
            getinfo_handler ext command_data st
              = ([Print Stderr (''PYTHON_ERROR: DataFrame '' @ quote @ fmt ext var_name @ quote
                                @ '' not found.'') False],
                 st, Returned))
       \<and> (\<forall>r info_str description_str head_str.
            map_of (dataframes st) k = Some r \<and> df_info ext (heap st r) = Inr info_str
            \<and> df_describe ext (heap st r) = Inr description_str
            \<and> df_head ext (heap st r) = Inr head_str
            \<and> stdout_error ext (report_text ext var_name info_str description_str head_str) = None
            \<longrightarrow>
            getinfo_handler ext command_data st
              = ([Print Stdout
                    (''--- METADATA FOR '' @ fmt ext var_name @ '' ---\<newline>\<newline>**Info:**\<newline>''
                     @ info_str
                     @ ''\<newline>**Descriptive Statistics:**\<newline>'' @ description_str
                     @ ''\<newline>\<newline>**First 5 Rows:**\<newline>'' @ head_str) False],
                 st, Returned))
       \<and> ((\<exists>txt. fst (getinfo_handler ext command_data st) = [Print Stdout txt False])
            \<longleftrightarrow>
            (\<exists>r info_str description_str head_str.
               map_of (dataframes st) k = Some r \<and> df_info ext (heap st r) = Inr info_str
               \<and> df_describe ext (heap st r) = Inr description_str
               \<and> df_head ext (heap st r) = Inr head_str
               \<and> stdout_error ext (report_text ext var_name info_str description_str head_str)
                   = None))
       \<and> ((\<exists>txt. fst (getinfo_handler ext command_data st) = [Print Stdout txt False])
            \<longrightarrow> k \<in> fst ` set (dataframes st))
       \<and> fst (snd (getinfo_handler ext command_data st)) = st"
proof -
  have absent: "getinfo_handler ext command_data st
              = ([Print Stderr (''PYTHON_ERROR: DataFrame '' @ quote @ fmt ext var_name @ quote
                                @ '' not found.'') False],
                 st, Returned)"
    if "map_of (dataframes st) k = None"
    using that assms
    by (simp add: getinfo_handler_def table_get_def not_found_line_def error_line_def)
  have present: "getinfo_handler ext command_data st
              = ([Print Stdout
                    (''--- METADATA FOR '' @ fmt ext var_name @ '' ---\<newline>\<newline>**Info:**\<newline>''
                     @ info_str
                     @ ''\<newline>**Descriptive Statistics:**\<newline>'' @ description_str
                     @ ''\<newline>\<newline>**First 5 Rows:**\<newline>'' @ head_str) False],
                 st, Returned)"
    if "map_of (dataframes st) k = Some r \<and> df_info ext (heap st r) = Inr info_str
            \<and> df_describe ext (heap st r) = Inr description_str
            \<and> df_head ext (heap st r) = Inr head_str
            \<and> stdout_error ext (report_text ext var_name info_str description_str head_str) = None"
    for r info_str description_str head_str
    using that assms
    by (simp add: getinfo_handler_def table_get_def) (simp add: report_text_def)
  have needs: "\<exists>r info_str description_str head_str.
               map_of (dataframes st) k = Some r \<and> df_info ext (heap st r) = Inr info_str
               \<and> df_describe ext (heap st r) = Inr description_str
               \<and> df_head ext (heap st r) = Inr head_str
               \<and> stdout_error ext (report_text ext var_name info_str description_str head_str)
                   = None"
    if "fst (getinfo_handler ext command_data st) = [Print Stdout out False]" for out
    using that assms
    by (auto simp: getinfo_handler_def table_get_def not_found_line_def error_line_def
             split: option.splits sum.splits)
  have inside: "k \<in> fst ` set (dataframes st)"
    if "fst (getinfo_handler ext command_data st) = [Print Stdout out False]" for out
  proof -
    from needs [OF that] obtain r where "map_of (dataframes st) k = Some r" by blast
    then show ?thesis by (metis map_of_eq_None_iff option.distinct(1))
  qed
  show ?thesis
  proof (intro conjI allI impI iffI)
    assume "map_of (dataframes st) k = None"
    then show "getinfo_handler ext command_data st
              = ([Print Stderr (''PYTHON_ERROR: DataFrame '' @ quote @ fmt ext var_name @ quote
                                @ '' not found.'') False],
                 st, Returned)"
      by (rule absent)
  next
    fix r info_str description_str head_str
    assume "map_of (dataframes st) k = Some r \<and> df_info ext (heap st r) = Inr info_str
            \<and> df_describe ext (heap st r) = Inr description_str
            \<and> df_head ext (heap st r) = Inr head_str
            \<and> stdout_error ext (report_text ext var_name info_str description_str head_str) = None"
    then show "getinfo_handler ext command_data st
              = ([Print Stdout
                    (''--- METADATA FOR '' @ fmt ext var_name @ '' ---\<newline>\<newline>**Info:**\<newline>''
                     @ info_str
                     @ ''\<newline>**Descriptive Statistics:**\<newline>'' @ description_str
                     @ ''\<newline>\<newline>**First 5 Rows:**\<newline>'' @ head_str) False],
                 st, Returned)"
      by (rule present)
  next
    assume "\<exists>txt. fst (getinfo_handler ext command_data st) = [Print Stdout txt False]"
    then show "\<exists>r info_str description_str head_str.
               map_of (dataframes st) k = Some r \<and> df_info ext (heap st r) = Inr info_str
               \<and> df_describe ext (heap st r) = Inr description_str
               \<and> df_head ext (heap st r) = Inr head_str
               \<and> stdout_error ext (report_text ext var_name info_str description_str head_str)
                   = None"
      using needs by blast
  next
    assume "\<exists>r info_str description_str head_str.
               map_of (dataframes st) k = Some r \<and> df_info ext (heap st r) = Inr info_str
               \<and> df_describe ext (heap st r) = Inr description_str
               \<and> df_head ext (heap st r) = Inr head_str
               \<and> stdout_error ext (report_text ext var_name info_str description_str head_str)
                   = None"
    then obtain r i d h where
      "map_of (dataframes st) k = Some r \<and> df_info ext (heap st r) = Inr i
               \<and> df_describe ext (heap st r) = Inr d
               \<and> df_head ext (heap st r) = Inr h
               \<and> stdout_error ext (report_text ext var_name i d h) = None"
      by blast
    from present [OF this]
    show "\<exists>txt. fst (getinfo_handler ext command_data st) = [Print Stdout txt False]"
      by simp
  next
    assume "\<exists>txt. fst (getinfo_handler ext command_data st) = [Print Stdout txt False]"
    then show "k \<in> fst ` set (dataframes st)"
      using inside by blast
  next
    show "fst (snd (getinfo_handler ext command_data st)) = st"
      by (rule getinfo_handler_state)
  qed
qed

theorem getinfo_report_witness:
  "py_get (PDict [(''type'', PStr ''GetInfoCommand''), (''varName'', PStr ''df'')]) ''varName''
     = Inr (PStr ''df'')
   \<and> py_hash_key (PStr ''df'') = Some (KStr ''df'')
   \<and> map_of [(KStr ''df'', 0::nat)] (KStr ''df'') = Some 0
   \<and> df_info demo_ext ''a,b'' = Inr ''info of a,b''
   \<and> df_describe demo_ext ''a,b'' = Inr ''describe of a,b''
   \<and> df_head demo_ext ''a,b'' = Inr ''head of a,b''
   \<and> stdout_error demo_ext
        (report_text demo_ext (PStr ''df'') ''info of a,b'' ''describe of a,b'' ''head of a,b'') = None
   \<and> getinfo_handler demo_ext (PDict [(''type'', PStr ''GetInfoCommand''), (''varName'', PStr ''df'')])
        \<lparr>dataframes = [(KStr ''df'', 0)], heap = (\<lambda>r. ''a,b''), next_ref = 1, stdin = []\<rparr>
      = ([Print Stdout
            (''--- METADATA FOR df ---\<newline>\<newline>**Info:**\<newline>info of a,b''
             @ ''\<newline>**Descriptive Statistics:**\<newline>describe of a,b''
             @ ''\<newline>\<newline>**First 5 Rows:**\<newline>head of a,b'') False],
         \<lparr>dataframes = [(KStr ''df'', 0)], heap = (\<lambda>r. ''a,b''), next_ref = 1, stdin = []\<rparr>,
         Returned)
   \<and> map_of (dataframes demo_state) (KStr ''df'') = None
   \<and> getinfo_handler demo_ext (PDict [(''type'', PStr ''GetInfoCommand''), (''varName'', PStr ''df'')])
        demo_state
      = ([Print Stderr (''PYTHON_ERROR: DataFrame '' @ quote @ ''df'' @ quote @ '' not found.'') False],
         demo_state, Returned)"
proof -
  have g: "py_get (PDict [(''type'', PStr ''GetInfoCommand''), (''varName'', PStr ''df'')]) ''varName''
     = Inr (PStr ''df'')"
    by (simp add: py_get_def)
  have h: "py_hash_key (PStr ''df'') = Some (KStr ''df'')" by simp
  have m: "map_of [(KStr ''df'', 0::nat)] (KStr ''df'') = Some 0" by simp
  have r: "df_info demo_ext ''a,b'' = Inr ''info of a,b''"
    "df_describe demo_ext ''a,b'' = Inr ''describe of a,b''"
    "df_head demo_ext ''a,b'' = Inr ''head of a,b''"
    by (simp_all add: demo_ext_def)
  have o: "stdout_error demo_ext
        (report_text demo_ext (PStr ''df'') ''info of a,b'' ''describe of a,b'' ''head of a,b'') = None"
    by (simp add: stdout_error_def report_text_def fmt_def is_ascii_def)
  have n: "map_of (dataframes demo_state) (KStr ''df'') = None"
    by (simp add: demo_state_def init_state_def)
  from getinfo_report [OF g h, of
         "\<lparr>dataframes = [(KStr ''df'', 0)], heap = (\<lambda>r. ''a,b''), next_ref = 1, stdin = []\<rparr>"
         demo_ext] m r o
  have w1: "getinfo_handler demo_ext
        (PDict [(''type'', PStr ''GetInfoCommand''), (''varName'', PStr ''df'')])
        \<lparr>dataframes = [(KStr ''df'', 0)], heap = (\<lambda>r. ''a,b''), next_ref = 1, stdin = []\<rparr>
      = ([Print Stdout
            (''--- METADATA FOR df ---\<newline>\<newline>**Info:**\<newline>info of a,b''
             @ ''\<newline>**Descriptive Statistics:**\<newline>describe of a,b''
             @ ''\<newline>\<newline>**First 5 Rows:**\<newline>head of a,b'') False],
         \<lparr>dataframes = [(KStr ''df'', 0)], heap = (\<lambda>r. ''a,b''), next_ref = 1, stdin = []\<rparr>,
         Returned)"
    by (simp add: fmt_def)
  from getinfo_report [OF g h, of demo_state demo_ext] n
  have w2: "getinfo_handler demo_ext
        (PDict [(''type'', PStr ''GetInfoCommand''), (''varName'', PStr ''df'')]) demo_state
      = ([Print Stderr (''PYTHON_ERROR: DataFrame '' @ quote @ ''df'' @ quote @ '' not found.'') False],
         demo_state, Returned)"
    by (simp add: fmt_def)
  show ?thesis
    by (intro conjI) (rule g h m r o n w1 w2)+
qed

subsection \<open>Execute\<close>

lemma exec_globals_other:
  assumes "k \<notin> fst ` set dfs"
  shows "map_of (foldl (\<lambda>d (k, r). AList.update k (DataFrame r) d) d0 dfs) k = map_of d0 k"
  using assms
proof (induction dfs arbitrary: d0)
  case Nil
  then show ?case by simp
next
  case (Cons x dfs)
  obtain k' r' where x: "x = (k', r')" by (cases x)
  with Cons.prems have "k' \<noteq> k" "k \<notin> fst ` set dfs" by auto
  with Cons.IH [of "AList.update k' (DataFrame r') d0"] x show ?case
    by (simp add: update_conv')
qed

lemma exec_globals_entry:
  assumes "distinct (map fst dfs)" "(k, r) \<in> set dfs"
  shows "map_of (foldl (\<lambda>d (k, r). AList.update k (DataFrame r) d) d0 dfs) k = Some (DataFrame r)"
  using assms
proof (induction dfs arbitrary: d0)
  case Nil
  then show ?case by simp
next
  case (Cons x dfs)
  obtain k' r' where x: "x = (k', r')" by (cases x)
  show ?case
  proof (cases "(k, r) = x")
    case True
    with x Cons.prems have "k \<notin> fst ` set dfs" by auto
    from exec_globals_other [OF this, of "AList.update k' (DataFrame r') d0"] True x
    show ?thesis by (simp add: update_conv')
  next
    case False
    with Cons.prems have "(k, r) \<in> set dfs" "distinct (map fst dfs)" by auto
    from Cons.IH [OF this(2) this(1), of "AList.update k' (DataFrame r') d0"] x
    show ?thesis by simp
  qed
qed

text \<open>
  C7, as stated, after a Load under the name \<^verbatim>\<open>pd\<close>: the globals built for executed code
  bind \<^verbatim>\<open>pd\<close> to the DataFrame, and hold no handle to the library at all.
\<close>

theorem exec_globals_counterexample:
  \<open>dataframes (fst (snd (main demo_ext (\<lambda>r. [])
       [''{"type":"LoadCommand","path":"data.csv","varName":"pd"}''])))
     = [(KStr ''pd'', 0)]
   \<and> exec_globals [(KStr ''pd'', 0)] = [(KStr ''pd'', DataFrame 0)]
   \<and> Module_pd \<notin> snd ` set (exec_globals [(KStr ''pd'', 0)])\<close>
proof -
  have \<open>main demo_ext (\<lambda>r. []) [''{"type":"LoadCommand","path":"data.csv","varName":"pd"}'']
     = ([Print Stdout (''Successfully loaded '' @ quote @ ''data.csv'' @ quote
                       @ '' into DataFrame '' @ quote @ ''pd'' @ quote @ ''.'') False, sentinel],
        \<lparr>dataframes = [(KStr ''pd'', 0)], heap = (\<lambda>r. [])(0 := ''a,b''), next_ref = 1,
           stdin = []\<rparr>, Returned)\<close>
    unfolding main_def
    by (subst main_loop.simps, simp add: model_defs demo_defs)+
  then show ?thesis by (simp add: exec_globals_def)
qed

text \<open>
  C7, amended. Executed code runs in a new dict that binds every name of the dataset
  table to its DataFrame and, unless a dataset is named \<^verbatim>\<open>pd\<close>, the name \<^verbatim>\<open>pd\<close> to the
  library. Whatever the code does to that dict, the dataset table maps the same names to
  the same objects afterwards; only the contents of the objects may have changed (and
  standard input may have been read).
\<close>

theorem execute_environment:
  assumes "distinct (map fst (dataframes st))"
  shows "fst (snd (execute_code ext (PStr code) st))
           = st\<lparr>heap := exec_heap (exec_code ext code (exec_globals (dataframes st)) (heap st)
                                      (stdin st)),
                stdin := drop (exec_consumed (exec_code ext code (exec_globals (dataframes st))
                                                (heap st) (stdin st))) (stdin st)\<rparr>
       \<and> (\<forall>k r. (k, r) \<in> set (dataframes st) \<longrightarrow>
             map_of (exec_globals (dataframes st)) k = Some (DataFrame r))
       \<and> (KStr ''pd'' \<notin> fst ` set (dataframes st) \<longrightarrow>
             map_of (exec_globals (dataframes st)) (KStr ''pd'') = Some Module_pd)
       \<and> dataframes (fst (snd (execute_code ext code_to_exec st))) = dataframes st"
proof (intro conjI allI impI)
  show "fst (snd (execute_code ext (PStr code) st))
           = st\<lparr>heap := exec_heap (exec_code ext code (exec_globals (dataframes st)) (heap st)
                                      (stdin st)),
                stdin := drop (exec_consumed (exec_code ext code (exec_globals (dataframes st))
                                                (heap st) (stdin st))) (stdin st)\<rparr>"
    by (simp add: execute_code_def py_exec_def Let_def split: outcome.splits sum.splits)
next
  fix k r
  assume "(k, r) \<in> set (dataframes st)"
  with assms show "map_of (exec_globals (dataframes st)) k = Some (DataFrame r)"
    unfolding exec_globals_def by (rule exec_globals_entry)
next
  assume "KStr ''pd'' \<notin> fst ` set (dataframes st)"
  then show "map_of (exec_globals (dataframes st)) (KStr ''pd'') = Some Module_pd"
    unfolding exec_globals_def by (simp add: exec_globals_other)
next
  show "dataframes (fst (snd (execute_code ext code_to_exec st))) = dataframes st"
    by (rule execute_code_dataframes)
qed

theorem execute_environment_witness:
  "distinct (map fst [(KStr ''df'', 0::nat)])
   \<and> (KStr ''df'', 0) \<in> set [(KStr ''df'', 0::nat)]
   \<and> KStr ''pd'' \<notin> fst ` set [(KStr ''df'', 0::nat)]
   \<and> map_of (exec_globals [(KStr ''df'', 0)]) (KStr ''df'') = Some (DataFrame 0)
   \<and> map_of (exec_globals [(KStr ''df'', 0)]) (KStr ''pd'') = Some Module_pd
   \<and> map_of (exec_globals_after (exec_code demo_ext ''df = 1'' (exec_globals [(KStr ''df'', 0)])
               (\<lambda>r. ''a,b'') [])) (KStr ''df'') = Some (Other (PInt 1))
   \<and> dataframes (fst (snd (execute_code demo_ext (PStr ''df = 1'')
        \<lparr>dataframes = [(KStr ''df'', 0)], heap = (\<lambda>r. ''a,b''), next_ref = 1, stdin = []\<rparr>)))
      = [(KStr ''df'', 0)]"
proof -
  have d: "distinct (map fst (dataframes
             \<lparr>dataframes = [(KStr ''df'', 0)], heap = (\<lambda>r. ''a,b''), next_ref = 1, stdin = []\<rparr>))"
    by simp
  have a: "map_of (exec_globals_after (exec_code demo_ext ''df = 1'' (exec_globals [(KStr ''df'', 0)])
               (\<lambda>r. ''a,b'') [])) (KStr ''df'') = Some (Other (PInt 1))"
    by (simp add: demo_ext_def demo_exec_def update_conv')
  from execute_environment [OF d, of demo_ext "''df = 1''" "PStr ''df = 1''"] a
  show ?thesis by simp
qed






subsection \<open>The loop\<close>
























end
